theory Spec2Isabelle
  imports Main
begin

text \<open>
  A model of the resolution, type-translation and request layer of \<open>interface.c\<close>,
  the C extension of the SNMP client: the type translator, the OID resolver, the
  request orchestrator \<open>__send_sync_pdu\<close> with its no-such-name retry, and the entry
  points for fetching, walking and writing.  The net-snmp library and the agent behind
  the transport are arguments of the model.
\<close>

section \<open>C strings and character classes\<close>

text \<open>
  A C string is modelled by the list of its characters before the terminating NUL; a
  \<open>char *\<close> that may be \<open>NULL\<close> is a \<open>string option\<close>.  The character classes are
  those of the C locale.
\<close>

definition isupper_c :: "char \<Rightarrow> bool" where
  "isupper_c c = (65 \<le> (of_char c :: nat) \<and> (of_char c :: nat) \<le> 90)"

definition islower_c :: "char \<Rightarrow> bool" where
  "islower_c c = (97 \<le> (of_char c :: nat) \<and> (of_char c :: nat) \<le> 122)"

definition isalpha_c :: "char \<Rightarrow> bool" where
  "isalpha_c c = (isupper_c c \<or> islower_c c)"

definition isdigit_c :: "char \<Rightarrow> bool" where
  "isdigit_c c = (48 \<le> (of_char c :: nat) \<and> (of_char c :: nat) \<le> 57)"

definition isspace_c :: "char \<Rightarrow> bool" where
  "isspace_c c = ((of_char c :: nat) = 32 \<or> (9 \<le> (of_char c :: nat) \<and> (of_char c :: nat) \<le> 13))"

definition tolower_c :: "char \<Rightarrow> char" where
  "tolower_c c = (if isupper_c c then char_of ((of_char c :: nat) + 32) else c)"

text \<open>\<open>strcasecmp(s, t) == 0\<close> and \<open>strncasecmp(s, t, n) == 0\<close>.\<close>

definition strcasecmp_eq :: "string \<Rightarrow> string \<Rightarrow> bool" where
  "strcasecmp_eq s t = (map tolower_c s = map tolower_c t)"

definition strncasecmp_eq :: "string \<Rightarrow> string \<Rightarrow> nat \<Rightarrow> bool" where
  "strncasecmp_eq s t n = (map tolower_c (take n s) = map tolower_c (take n t))"

section \<open>Constants\<close>

text \<open>
  The macros of \<open>interface.c\<close> itself, followed by the constants it takes from the
  headers of the net-snmp library (\<open>parse.h\<close>, \<open>snmp.h\<close>, \<open>asn1.h\<close>,
  \<open>snmp_client.h\<close>, \<open>snmp_api.h\<close>).  These headers belong to the library, not to
  the repository; the constants have the values net-snmp 5 gives them.
\<close>

definition SUCCESS :: int where "SUCCESS = 1"
definition FAILURE :: int where "FAILURE = 0"
definition TYPE_UNKNOWN :: int where "TYPE_UNKNOWN = 0"
definition NO_RETRY_NOSUCH :: int where "NO_RETRY_NOSUCH = 0"

definition TYPE_OTHER :: int where "TYPE_OTHER = 0"
definition TYPE_OBJID :: int where "TYPE_OBJID = 1"
definition TYPE_OCTETSTR :: int where "TYPE_OCTETSTR = 2"
definition TYPE_INTEGER :: int where "TYPE_INTEGER = 3"
definition TYPE_NETADDR :: int where "TYPE_NETADDR = 4"
definition TYPE_IPADDR :: int where "TYPE_IPADDR = 5"
definition TYPE_COUNTER :: int where "TYPE_COUNTER = 6"
definition TYPE_GAUGE :: int where "TYPE_GAUGE = 7"
definition TYPE_TIMETICKS :: int where "TYPE_TIMETICKS = 8"
definition TYPE_OPAQUE :: int where "TYPE_OPAQUE = 9"
definition TYPE_NULL :: int where "TYPE_NULL = 10"
definition TYPE_COUNTER64 :: int where "TYPE_COUNTER64 = 11"
definition TYPE_BITSTRING :: int where "TYPE_BITSTRING = 12"
definition TYPE_NSAPADDRESS :: int where "TYPE_NSAPADDRESS = 13"
definition TYPE_UINTEGER :: int where "TYPE_UINTEGER = 14"
definition TYPE_UNSIGNED32 :: int where "TYPE_UNSIGNED32 = 15"
definition TYPE_INTEGER32 :: int where "TYPE_INTEGER32 = 16"
definition TYPE_TRAPTYPE :: int where "TYPE_TRAPTYPE = 20"
definition TYPE_NOTIFTYPE :: int where "TYPE_NOTIFTYPE = 21"

definition SNMP_NOSUCHOBJECT :: int where "SNMP_NOSUCHOBJECT = 128"
definition SNMP_NOSUCHINSTANCE :: int where "SNMP_NOSUCHINSTANCE = 129"
definition SNMP_ENDOFMIBVIEW :: int where "SNMP_ENDOFMIBVIEW = 130"

section \<open>Type translator\<close>

text \<open>
  \<open>__translate_appl_type\<close>: a \<open>NULL\<close> or empty specifier is unknown; a one-character
  specifier goes through the \<open>snmpset(1)\<close> table; anything longer is compared, in the
  order of the source, with the prefixes of the type names.
\<close>

definition translate_appl_type :: "string option \<Rightarrow> int" where
  "translate_appl_type typestr =
     (case typestr of
        None \<Rightarrow> TYPE_UNKNOWN
      | Some [] \<Rightarrow> TYPE_UNKNOWN
      | Some [c] \<Rightarrow>
          (if c = CHR ''i'' then TYPE_INTEGER
           else if c = CHR ''u'' then TYPE_UNSIGNED32
           else if c = CHR ''s'' then TYPE_OCTETSTR
           else if c = CHR ''n'' then TYPE_NULL
           else if c = CHR ''o'' then TYPE_OBJID
           else if c = CHR ''t'' then TYPE_TIMETICKS
           else if c = CHR ''a'' then TYPE_IPADDR
           else if c = CHR ''b'' then TYPE_BITSTRING
           else TYPE_UNKNOWN)
      | Some s \<Rightarrow>
          (if strncasecmp_eq s ''INTEGER32'' 8 then TYPE_INTEGER32
           else if strncasecmp_eq s ''INTEGER'' 3 then TYPE_INTEGER
           else if strncasecmp_eq s ''UNSIGNED32'' 3 then TYPE_UNSIGNED32
           else if strcasecmp_eq s ''COUNTER'' then TYPE_COUNTER
           else if strncasecmp_eq s ''GAUGE'' 3 then TYPE_GAUGE
           else if strncasecmp_eq s ''IPADDR'' 3 then TYPE_IPADDR
           else if strncasecmp_eq s ''OCTETSTR'' 3 then TYPE_OCTETSTR
           else if strncasecmp_eq s ''TICKS'' 3 then TYPE_TIMETICKS
           else if strncasecmp_eq s ''OPAQUE'' 3 then TYPE_OPAQUE
           else if strncasecmp_eq s ''OBJECTID'' 3 then TYPE_OBJID
           else if strncasecmp_eq s ''NETADDR'' 3 then TYPE_NETADDR
           else if strncasecmp_eq s ''COUNTER64'' 3 then TYPE_COUNTER64
           else if strncasecmp_eq s ''NULL'' 3 then TYPE_NULL
           else if strncasecmp_eq s ''BITS'' 3 then TYPE_BITSTRING
           else if strncasecmp_eq s ''ENDOFMIBVIEW'' 3 then SNMP_ENDOFMIBVIEW
           else if strncasecmp_eq s ''NOSUCHOBJECT'' 7 then SNMP_NOSUCHOBJECT
           else if strncasecmp_eq s ''NOSUCHINSTANCE'' 7 then SNMP_NOSUCHINSTANCE
           else if strncasecmp_eq s ''UINTEGER'' 3 then TYPE_UINTEGER
           else if strncasecmp_eq s ''NOTIF'' 3 then TYPE_NOTIFTYPE
           else if strncasecmp_eq s ''TRAP'' 4 then TYPE_TRAPTYPE
           else TYPE_UNKNOWN))"

text \<open>
  \<open>__get_type_str\<close> returns its status together with the string it copies into
  \<open>str\<close>.  The \<open>switch\<close> is an if-chain in the order of its \<open>case\<close> labels; the log
  message of the default branch is not modelled.
\<close>

definition get_type_str :: "int \<Rightarrow> int \<times> string" where
  "get_type_str type =
     (if type = TYPE_OBJID then (SUCCESS, ''OBJECTID'')
      else if type = TYPE_OCTETSTR then (SUCCESS, ''OCTETSTR'')
      else if type = TYPE_INTEGER then (SUCCESS, ''INTEGER'')
      else if type = TYPE_INTEGER32 then (SUCCESS, ''INTEGER32'')
      else if type = TYPE_UNSIGNED32 then (SUCCESS, ''UNSIGNED32'')
      else if type = TYPE_NETADDR then (SUCCESS, ''NETADDR'')
      else if type = TYPE_IPADDR then (SUCCESS, ''IPADDR'')
      else if type = TYPE_COUNTER then (SUCCESS, ''COUNTER'')
      else if type = TYPE_GAUGE then (SUCCESS, ''GAUGE'')
      else if type = TYPE_TIMETICKS then (SUCCESS, ''TICKS'')
      else if type = TYPE_OPAQUE then (SUCCESS, ''OPAQUE'')
      else if type = TYPE_COUNTER64 then (SUCCESS, ''COUNTER64'')
      else if type = TYPE_NULL then (SUCCESS, ''NULL'')
      else if type = SNMP_ENDOFMIBVIEW then (SUCCESS, ''ENDOFMIBVIEW'')
      else if type = SNMP_NOSUCHOBJECT then (SUCCESS, ''NOSUCHOBJECT'')
      else if type = SNMP_NOSUCHINSTANCE then (SUCCESS, ''NOSUCHINSTANCE'')
      else if type = TYPE_UINTEGER then (SUCCESS, ''UINTEGER'')
      else if type = TYPE_NOTIFTYPE then (SUCCESS, ''NOTIF'')
      else if type = TYPE_BITSTRING then (SUCCESS, ''BITS'')
      else if type = TYPE_TRAPTYPE then (SUCCESS, ''TRAP'')
      else (FAILURE, ''''))"

section \<open>PDUs, the transport and the Python error indicator\<close>

text \<open>
  The constants of \<open>snmp_client.h\<close>, \<open>snmp.h\<close> and \<open>snmp_api.h\<close> that the request
  path uses.
\<close>

definition STAT_SUCCESS :: int where "STAT_SUCCESS = 0"
definition STAT_ERROR :: int where "STAT_ERROR = 1"
definition STAT_TIMEOUT :: int where "STAT_TIMEOUT = 2"

definition SNMP_ERR_NOERROR :: int where "SNMP_ERR_NOERROR = 0"
definition SNMP_ERR_NOSUCHNAME :: int where "SNMP_ERR_NOSUCHNAME = 2"
definition SNMPERR_BAD_SESSION :: int where "SNMPERR_BAD_SESSION = - 4"
definition SNMP_DEFAULT_ERRSTAT :: int where "SNMP_DEFAULT_ERRSTAT = - 1"
definition SNMP_DEFAULT_ERRINDEX :: int where "SNMP_DEFAULT_ERRINDEX = - 1"

definition SNMP_MSG_GET :: int where "SNMP_MSG_GET = 160"
definition SNMP_MSG_GETNEXT :: int where "SNMP_MSG_GETNEXT = 161"
definition SNMP_MSG_RESPONSE :: int where "SNMP_MSG_RESPONSE = 162"
definition SNMP_MSG_SET :: int where "SNMP_MSG_SET = 163"
definition SNMP_MSG_GETBULK :: int where "SNMP_MSG_GETBULK = 165"

definition MAX_OID_LEN :: nat where "MAX_OID_LEN = 128"
definition MAX_TYPE_NAME_LEN :: nat where "MAX_TYPE_NAME_LEN = 32"
definition STR_BUF_SIZE :: nat where "STR_BUF_SIZE = MAX_TYPE_NAME_LEN * MAX_OID_LEN"

text \<open>
  Integer conversions of C on an LP64 platform: \<open>long\<close> and \<open>size_t\<close> have 64 bits,
  \<open>int\<close> has 32.  \<open>ulong\<close> is the conversion to \<open>unsigned long\<close>, \<open>c_int\<close> the
  narrowing to \<open>int\<close>.
\<close>

definition ulong :: "int \<Rightarrow> int" where
  "ulong x = x mod 2 ^ 64"

definition c_int :: "int \<Rightarrow> int" where
  "c_int x = (x + 2 ^ 31) mod 2 ^ 32 - 2 ^ 31"

text \<open>The value a variable carries, as the union \<open>netsnmp_vardata\<close> holds it.\<close>

datatype asn_val =
    NoVal
  | IntVal int
  | UIntVal int
  | Bytes string
  | AddrVal int
  | OidVal "nat list"

record variable =
  name :: "nat list"
  vtype :: int
  val :: asn_val

text \<open>
  A PDU.  \<open>errstat\<close> and \<open>errindex\<close> are \<open>long\<close>.  In a bulk request net-snmp
  stores the non-repeater and max-repetition counts in these two fields
  (\<open>non_repeaters\<close> and \<open>max_repetitions\<close> are other names of \<open>errstat\<close> and
  \<open>errindex\<close>).
\<close>

record pdu =
  command :: int
  errstat :: int
  errindex :: int
  variables :: "variable list"

text \<open>\<open>snmp_pdu_create\<close> and \<open>snmp_add_null_var\<close> of the library.\<close>

definition ASN_NULL :: int where "ASN_NULL = 5"

definition snmp_pdu_create :: "int \<Rightarrow> pdu" where
  "snmp_pdu_create cmd =
     \<lparr>command = cmd, errstat = SNMP_DEFAULT_ERRSTAT, errindex = SNMP_DEFAULT_ERRINDEX,
      variables = []\<rparr>"

definition snmp_add_null_var :: "pdu \<Rightarrow> nat list \<Rightarrow> pdu" where
  "snmp_add_null_var p n =
     p\<lparr>variables := variables p @ [\<lparr>name = n, vtype = ASN_NULL, val = NoVal\<rparr>]\<rparr>"

text \<open>
  What one call of \<open>snmp_sess_synch_response\<close> gives back: its return value, the
  response it stores, and the error state of the session that \<open>snmp_sess_error\<close> reads
  afterwards (\<open>s_errno\<close>, \<open>s_snmp_errno\<close> and the detail string).
\<close>

record reply =
  r_status :: int
  r_response :: "pdu option"
  r_errno :: int
  r_snmp_errno :: int
  r_detail :: string

text \<open>
  The transport is outside the repository.  It is a function of the number of requests
  sent so far on the handle and of the request; a \<open>NULL\<close> handle is \<open>None\<close>.
\<close>

type_synonym transport = "nat \<Rightarrow> pdu \<Rightarrow> reply"

text \<open>The exceptions of \<open>easysnmp.exceptions\<close> that \<open>interface.c\<close> raises.\<close>

datatype exc =
    EasySNMPError string
  | EasySNMPTimeoutError string
  | EasySNMPNoSuchNameError string
  | EasySNMPUnknownObjectIDError string
  | EasySNMPUndeterminedTypeError string

definition strlcpy :: "string \<Rightarrow> nat \<Rightarrow> string" where
  "strlcpy src n = take (n - 1) src"

section \<open>The invalid-OID mask\<close>

text \<open>
  Modelled from the spec: \<open>simple_bitarray.h\<close>, which declares \<open>bitarray\<close> and
  \<open>bitarray_set_bit\<close>, is not among the sources.  The spec describes the mask as a
  growable bit-vector with one bit per original batch entry, a set bit marking an entry
  that is excluded; it is the set of the positions whose bit is set.  The position is
  passed as a \<open>size_t\<close>.  A \<open>NULL\<close> mask has no bits and stays \<open>NULL\<close>.
\<close>

type_synonym bitarray = "nat set"

definition bitarray_set_bit :: "bitarray option \<Rightarrow> int \<Rightarrow> bitarray option" where
  "bitarray_set_bit ba pos = map_option (insert (nat (ulong pos))) ba"

section \<open>Eliding an entry from a request\<close>

text \<open>
  Modelled from the spec: \<open>snmp_fix_pdu\<close> belongs to the net-snmp library.  The spec
  has it strip the offending entry from the outstanding request, with nothing left to
  resubmit when no entry remains; the comment at its call says it "returns NULL likely
  indicating no more remaining variables".  The library applies it to an error response
  whose error index lies within its entries, and answers \<open>NULL\<close> otherwise.
\<close>

definition snmp_fix_pdu :: "pdu \<Rightarrow> int \<Rightarrow> pdu option" where
  "snmp_fix_pdu p cmd =
     (if command p \<noteq> SNMP_MSG_RESPONSE \<or> errstat p = SNMP_ERR_NOERROR
         \<or> variables p = [] \<or> errindex p > int (length (variables p)) \<or> errindex p \<le> 0
      then None
      else
        (let vs = take (nat (errindex p) - 1) (variables p) @ drop (nat (errindex p)) (variables p)
         in if vs = [] then None
            else Some (p\<lparr>command := cmd, errstat := SNMP_DEFAULT_ERRSTAT,
                         errindex := SNMP_DEFAULT_ERRINDEX, variables := vs\<rparr>)))"

section \<open>The request orchestrator\<close>

text \<open>What \<open>__send_sync_pdu\<close> hands back: its return value and its output arguments,
  and the exception it has set, if any.\<close>

record sync_result =
  status :: int
  response :: "pdu option"
  err_str :: string
  err_num :: int
  err_ind :: int
  raised :: "exc option"

text \<open>
  The variables of \<open>__send_sync_pdu\<close> that live across the \<open>retry\<close> label, together
  with the mask and the list of the requests handed to the transport so far.
\<close>

record retry_state =
  rs_pdu :: pdu
  retry_num :: int
  last_errindex :: int
  invalid_oids :: "bitarray option"
  sent :: "pdu list"

text \<open>
  The two adjustments of the transport status before the \<open>switch\<close>.  \<open>buf\<close> is
  the buffer \<open>err_str\<close> as it is at that point; \<open>strcmp\<close> is non-zero exactly when the strings
  differ.
\<close>

definition adjust_status :: "string \<Rightarrow> pdu option \<Rightarrow> int \<Rightarrow> int" where
  "adjust_status buf resp st =
     (let st1 = (if resp = None \<and> st = STAT_SUCCESS then STAT_ERROR else st)
      in if buf \<noteq> ''Timeout'' \<and> st1 = STAT_ERROR then STAT_TIMEOUT else st1)"

text \<open>The branches \<open>STAT_TIMEOUT\<close>, \<open>STAT_ERROR\<close> and \<open>default\<close> of the outer \<open>switch\<close>.\<close>

definition transport_failure :: "string \<Rightarrow> reply \<Rightarrow> int \<Rightarrow> sync_result" where
  "transport_failure buf rep st =
     (if st = STAT_TIMEOUT then
        \<lparr>status = st, response = r_response rep,
         err_str = strlcpy (r_detail rep) STR_BUF_SIZE,
         err_num = r_errno rep, err_ind = r_snmp_errno rep,
         raised = Some (EasySNMPTimeoutError ''timed out while connecting to remote host'')\<rparr>
      else if st = STAT_ERROR then
        \<lparr>status = st, response = r_response rep,
         err_str = strlcpy (r_detail rep) STR_BUF_SIZE,
         err_num = r_errno rep, err_ind = r_snmp_errno rep,
         raised = Some (EasySNMPError (r_detail rep))\<rparr>
      else
        \<lparr>status = st, response = r_response rep,
         err_str = buf @ ''send_sync_pdu: unknown status'',
         err_num = r_snmp_errno rep, err_ind = 0, raised = None\<rparr>)"

text \<open>
  One pass through the code after the label \<open>retry\<close>.  The first component is \<open>None\<close>
  when the pass ends in \<open>goto retry\<close> and the result of the call otherwise; the second
  is the state after the pass.  \<open>err_str\<close> has been cleared by the \<open>memset\<close> at the top
  of the function and is written only on the way out, so every pass sees it empty.
\<close>

definition sync_round ::
  "(int \<Rightarrow> string) \<Rightarrow> transport \<Rightarrow> int \<Rightarrow> int \<Rightarrow> retry_state
    \<Rightarrow> sync_result option \<times> retry_state" where
  "sync_round snmp_errstring tr cmd retry_nosuch s =
     (let rep = tr (length (sent s)) (rs_pdu s);
          s1 = s\<lparr>sent := sent s @ [rs_pdu s]\<rparr>;
          st = adjust_status [] (r_response rep) (r_status rep)
      in case r_response rep of
           None \<Rightarrow> (Some (transport_failure [] rep st), s1)
         | Some resp \<Rightarrow>
             if st = STAT_SUCCESS then
               (let st2 = c_int (errstat resp) in
                if st2 = SNMP_ERR_NOERROR then
                  (Some \<lparr>status = st2, response = Some resp, err_str = [],
                         err_num = 0, err_ind = 0, raised = None\<rparr>, s1)
                else if st2 = SNMP_ERR_NOSUCHNAME then
                  (if retry_nosuch \<noteq> 0 then
                     (let pos =
                            (if last_errindex s = 0 then errindex resp - 1
                             else if last_errindex s > ulong (errindex resp)
                               then errindex resp - 1
                             else ulong (errindex resp - 1) + retry_num s);
                          s2 = s1\<lparr>invalid_oids := bitarray_set_bit (invalid_oids s) pos,
                                  last_errindex := ulong (errindex resp)\<rparr>
                      in case snmp_fix_pdu resp cmd of
                           None \<Rightarrow>
                             (Some \<lparr>status = STAT_SUCCESS, response = Some resp,
                                    err_str = [], err_num = 0, err_ind = 0,
                                    raised = None\<rparr>, s2)
                         | Some p \<Rightarrow>
                             (None, s2\<lparr>rs_pdu := p, retry_num := ulong (retry_num s + 1)\<rparr>))
                   else
                     (Some \<lparr>status = st2, response = Some resp, err_str = [],
                            err_num = 0, err_ind = 0,
                            raised = Some (EasySNMPNoSuchNameError
                                             ''no such name error encountered'')\<rparr>, s1))
                else
                  (let e = strlcpy (snmp_errstring (c_int (errstat resp))) STR_BUF_SIZE in
                   (Some \<lparr>status = st2, response = Some resp, err_str = e,
                          err_num = c_int (errstat resp), err_ind = c_int (errindex resp),
                          raised = Some (EasySNMPError e)\<rparr>, s1)))
             else (Some (transport_failure [] rep st), s1))"

text \<open>
  The \<open>goto retry\<close> loop.  Nothing in the code bounds it, so the model counts the passes
  it may still make: with none left the answer is \<open>None\<close> and the state reached.
\<close>

fun send_sync_loop ::
  "nat \<Rightarrow> (int \<Rightarrow> string) \<Rightarrow> transport \<Rightarrow> int \<Rightarrow> int \<Rightarrow> retry_state
    \<Rightarrow> sync_result option \<times> retry_state" where
  "send_sync_loop 0 es tr cmd retry_nosuch s = (None, s)"
| "send_sync_loop (Suc n) es tr cmd retry_nosuch s =
     (case sync_round es tr cmd retry_nosuch s of
        (Some r, s') \<Rightarrow> (Some r, s')
      | (None, s') \<Rightarrow> send_sync_loop n es tr cmd retry_nosuch s')"

text \<open>
  \<open>__send_sync_pdu\<close>.  \<open>es\<close> and \<open>aes\<close> stand for the library's \<open>snmp_errstring\<close> and
  \<open>snmp_api_errstring\<close>; \<open>log\<close> is the list of the requests sent before the call.
\<close>

definition send_sync_pdu ::
  "nat \<Rightarrow> (int \<Rightarrow> string) \<Rightarrow> (int \<Rightarrow> string) \<Rightarrow> transport option \<Rightarrow> pdu \<Rightarrow> int
    \<Rightarrow> bitarray option \<Rightarrow> pdu list \<Rightarrow> sync_result option \<times> retry_state" where
  "send_sync_pdu fuel es aes ss p retry_nosuch ba log =
     (let s0 = \<lparr>rs_pdu = p, retry_num = 0, last_errindex = 0, invalid_oids = ba,
                sent = log\<rparr>
      in case ss of
           None \<Rightarrow>
             (Some \<lparr>status = SNMPERR_BAD_SESSION, response = None,
                    err_str = strlcpy (aes SNMPERR_BAD_SESSION) STR_BUF_SIZE,
                    err_num = 0, err_ind = SNMPERR_BAD_SESSION, raised = None\<rparr>, s0)
         | Some tr \<Rightarrow> send_sync_loop fuel es tr (command p) retry_nosuch s0)"

section \<open>The OID resolver\<close>

text \<open>
  An \<open>oid\<close> array is the function from its indices to its cells.  The arrays of the
  code hold \<open>MAX_OID_LEN\<close> cells; a write past the last cell is undefined in C and is
  an ordinary write here.  A freshly allocated array and the local array \<open>newname\<close>
  start with whatever the memory holds: that content is an argument of the model.
\<close>

type_synonym oid_buf = "nat \<Rightarrow> nat"

definition buf_take :: "oid_buf \<Rightarrow> nat \<Rightarrow> nat list" where
  "buf_take b n = map b [0..<n]"

definition memcpy_oid :: "oid_buf \<Rightarrow> oid_buf \<Rightarrow> nat \<Rightarrow> oid_buf" where
  "memcpy_oid dst src n = (\<lambda>i. if i < n then src i else dst i)"

definition memcpy_list :: "oid_buf \<Rightarrow> nat list \<Rightarrow> oid_buf" where
  "memcpy_list dst xs = (\<lambda>i. if i < length xs then xs ! i else dst i)"

text \<open>
  The conversion \<open>%lu\<close> of \<open>sscanf\<close>, as the C library performs it: white space is
  skipped, a sign is accepted, the decimal digits that follow are read, and a value out
  of range is \<open>ULONG_MAX\<close>.  Without a digit nothing is converted and the cell that was
  to receive the value keeps its content.
\<close>

definition dec_value :: "string \<Rightarrow> int" where
  "dec_value ds = foldl (\<lambda>a c. 10 * a + ((of_char c :: int) - 48)) 0 ds"

definition sscanf_lu :: "string \<Rightarrow> nat option" where
  "sscanf_lu s =
     (let s1 = dropWhile isspace_c s;
          neg = (case s1 of [] \<Rightarrow> False | c # r \<Rightarrow> c = CHR ''-'');
          s2 = (case s1 of [] \<Rightarrow> []
                | c # r \<Rightarrow> if c = CHR ''-'' \<or> c = CHR ''+'' then r else s1);
          ds = takeWhile isdigit_c s2;
          v = dec_value ds
      in if ds = [] then None
         else if 2 ^ 64 \<le> v then Some (nat (2 ^ 64 - 1))
         else if neg then Some (nat ((2 ^ 64 - v) mod 2 ^ 64))
         else Some (nat v))"

definition store :: "oid_buf \<Rightarrow> nat \<Rightarrow> nat option \<Rightarrow> oid_buf" where
  "store b i r = (case r of None \<Rightarrow> b | Some v \<Rightarrow> b(i := v))"

text \<open>
  \<open>__scan_num_objid\<close>.  \<open>buf\<close> is the rest of the string, \<open>cp\<close> the string from the
  start of the current component.  The test for a letter looks at the character after
  the one just passed.
\<close>

fun scan_loop :: "string \<Rightarrow> string \<Rightarrow> oid_buf \<Rightarrow> nat \<Rightarrow> int \<times> oid_buf \<times> nat" where
  "scan_loop [] cp objid len = (SUCCESS, store objid len (sscanf_lu cp), Suc len)"
| "scan_loop (c # buf) cp objid len =
     (if c = CHR ''.'' then scan_loop buf buf (store objid len (sscanf_lu cp)) (Suc len)
      else if (case buf of [] \<Rightarrow> False | d # r \<Rightarrow> isalpha_c d) then (FAILURE, objid, len)
      else scan_loop buf cp objid len)"

definition scan_num_objid :: "string \<Rightarrow> oid_buf \<Rightarrow> int \<times> oid_buf \<times> nat" where
  "scan_num_objid buf objid =
     (let b = (case buf of [] \<Rightarrow> [] | c # r \<Rightarrow> if c = CHR ''.'' then r else buf)
      in scan_loop b b objid 0)"

text \<open>
  \<open>__concat_oid_str\<close>.  \<open>strtok_r\<close> with the delimiter \<open>"."\<close> yields the non-empty
  runs of characters between dots; \<open>tok\<close> is the run being read.  Every token advances
  the length, whether or not \<open>sscanf\<close> converts it.  The failure of \<open>strdup\<close> is not
  modelled.
\<close>

fun strtok_dots :: "string \<Rightarrow> string \<Rightarrow> string list" where
  "strtok_dots tok [] = (if tok = [] then [] else [tok])"
| "strtok_dots tok (c # s) =
     (if c = CHR ''.'' then (if tok = [] then strtok_dots [] s else tok # strtok_dots [] s)
      else strtok_dots (tok @ [c]) s)"

fun concat_tokens :: "string list \<Rightarrow> oid_buf \<Rightarrow> nat \<Rightarrow> oid_buf \<times> nat" where
  "concat_tokens [] doid_arr len = (doid_arr, len)"
| "concat_tokens (cp # cps) doid_arr len =
     concat_tokens cps (store doid_arr len (sscanf_lu cp)) (Suc len)"

definition concat_oid_str :: "oid_buf \<Rightarrow> nat \<Rightarrow> string option \<Rightarrow> int \<times> oid_buf \<times> nat" where
  "concat_oid_str doid_arr doid_arr_len soid_str =
     (case soid_str of
        None \<Rightarrow> (SUCCESS, doid_arr, doid_arr_len)
      | Some [] \<Rightarrow> (SUCCESS, doid_arr, doid_arr_len)
      | Some (c # r) \<Rightarrow>
          (let s = (if c = CHR ''.'' then r else c # r);
               (arr, len) = concat_tokens (strtok_dots [] s) doid_arr doid_arr_len
           in (SUCCESS, arr, len)))"

text \<open>
  A node of the MIB tree, with the fields the code reads, and the part of the net-snmp
  library that the code consults: error strings, the look-up functions of the MIB, and
  the parsers it hands values to.  A look-up takes and gives back the array and the
  length it is called with, next to its return value.  \<open>sprint_objid_tree\<close> is the
  node that \<open>netsnmp_sprint_realloc_objid_tree\<close> returns for a name, \<open>NULL\<close> when the
  tree has none.  The last two fields stand for what \<open>read_variable\<close> derives from a
  variable with the help of the library and of \<open>__get_label_iid\<close> and
  \<open>__snprint_value\<close>: the label and instance strings, and the printed value.  No
  property below depends on them.
\<close>

datatype tree = Tree (subid: nat) (ttype: int) (enums: "(string \<times> int) list")
  (parent: "tree option")

record netsnmp =
  snmp_errstring :: "int \<Rightarrow> string"
  snmp_api_errstring :: "int \<Rightarrow> string"
  get_node :: "string \<Rightarrow> oid_buf \<Rightarrow> nat \<Rightarrow> int \<times> oid_buf \<times> nat"
  get_wild_node :: "string \<Rightarrow> oid_buf \<Rightarrow> nat \<Rightarrow> int \<times> oid_buf \<times> nat"
  read_objid :: "string \<Rightarrow> oid_buf \<Rightarrow> nat \<Rightarrow> int \<times> oid_buf \<times> nat"
  find_node :: "string \<Rightarrow> tree option"
  get_tree :: "nat list \<Rightarrow> tree option"
  strtol :: "string \<Rightarrow> int"
  inet_addr :: "string \<Rightarrow> int"
  snmp_parse_oid :: "string \<Rightarrow> nat list option"
  sprint_objid_tree :: "nat list \<Rightarrow> tree option"
  label_iid :: "nat list \<Rightarrow> int \<Rightarrow> string \<times> string"
  print_value :: "variable \<Rightarrow> tree \<Rightarrow> int \<Rightarrow> string"

text \<open>
  The sub-identifiers from a node up to the root, as the loop over \<open>tp->parent\<close> writes
  them, from the end of \<open>newname\<close> backwards.  The loop stops after \<open>MAX_OID_LEN\<close>
  cells; for a deeper node the C code then reads before the start of the array, and the
  model keeps the cells written.
\<close>

fun path_to_root :: "tree \<Rightarrow> nat list" where
  "path_to_root (Tree i t es None) = [i]"
| "path_to_root (Tree i t es (Some p)) = i # path_to_root p"

text \<open>
  The code after the label \<open>done\<close> of \<open>__tag2oid\<close>, and the function itself.  The
  result is the node returned, the array and length left in \<open>oid_arr\<close> and
  \<open>oid_arr_len\<close>, and the value left in \<open>type\<close>.  Every call in the file passes
  \<open>oid_arr\<close> and \<open>oid_arr_len\<close>, so the early returns for their absence do not appear;
  a caller that passes no \<open>type\<close> ignores the last component.
\<close>

definition tag2oid_done ::
  "tree option \<Rightarrow> oid_buf \<Rightarrow> nat \<Rightarrow> int \<Rightarrow> string option
    \<Rightarrow> tree option \<times> oid_buf \<times> nat \<times> int" where
  "tag2oid_done rtp oid_arr oid_arr_len ty iid =
     (case concat_oid_str oid_arr oid_arr_len iid of
        (ret, arr, len) \<Rightarrow> (rtp, arr, len, ty))"

definition node_type :: "tree option \<Rightarrow> int" where
  "node_type tp = (case tp of None \<Rightarrow> TYPE_UNKNOWN | Some t \<Rightarrow> ttype t)"

definition tag2oid ::
  "netsnmp \<Rightarrow> oid_buf \<Rightarrow> string option \<Rightarrow> string option \<Rightarrow> oid_buf \<Rightarrow> int
    \<Rightarrow> tree option \<times> oid_buf \<times> nat \<times> int" where
  "tag2oid lib newname0 tag iid oid_arr best_guess =
     (case tag of
        None \<Rightarrow> tag2oid_done None oid_arr 0 TYPE_UNKNOWN iid
      | Some t \<Rightarrow>
          if best_guess = 1 \<or> best_guess = 2 then
            (case scan_num_objid t newname0 of
               (ok, newname, newname_len) \<Rightarrow>
                 (case (if ok = 0 then
                          (if best_guess = 2 then
                             (case get_node lib t newname MAX_OID_LEN of
                                (r, nn, nl) \<Rightarrow>
                                  (if r \<noteq> 0 then get_tree lib (buf_take nn nl) else None,
                                   nn, nl))
                           else
                             (case get_wild_node lib t newname MAX_OID_LEN of
                                (r, nn, nl) \<Rightarrow>
                                  (if r \<noteq> 0 then get_tree lib (buf_take nn nl) else None,
                                   nn, nl)))
                        else (get_tree lib (buf_take newname newname_len), newname,
                              newname_len)) of
                    (tp, nn, nl) \<Rightarrow>
                      tag2oid_done tp (memcpy_oid oid_arr nn nl) nl (node_type tp) iid))
          else if CHR ''.'' \<in> set t \<or> CHR '':'' \<in> set t then
            (case scan_num_objid t newname0 of
               (ok, newname, newname_len) \<Rightarrow>
                 (case (if ok = 0 then
                          (case read_objid lib t newname MAX_OID_LEN of
                             (r, nn, nl) \<Rightarrow>
                               (if r \<noteq> 0 then (get_tree lib (buf_take nn nl), nn, nl)
                                else (None, nn, 0)))
                        else (get_tree lib (buf_take newname newname_len), newname,
                              newname_len)) of
                    (tp, nn, nl) \<Rightarrow>
                      tag2oid_done tp (memcpy_oid oid_arr nn nl) nl (node_type tp) iid))
          else
            (case find_node lib t of
               Some tp \<Rightarrow>
                 (let ids = rev (take MAX_OID_LEN (path_to_root tp))
                  in tag2oid_done (Some tp) (memcpy_list oid_arr ids) (length ids)
                       (ttype tp) iid)
             | None \<Rightarrow> (None, oid_arr, 0, TYPE_UNKNOWN)))"

section \<open>Sessions, batches and results\<close>

text \<open>
  An entry of the \<open>varlist\<close> a caller passes, as \<open>py_netsnmp_attr_string\<close> reads its
  attributes: \<open>None\<close> when the call gives a negative value and leaves the string
  \<open>NULL\<close> (no such attribute, or no text), the bytes otherwise.  A text that
  holds a zero byte, for which the call is negative with the string set, is not
  modelled.
\<close>

record py_varbind =
  vb_oid :: "string option"
  vb_oid_index :: "string option"
  vb_snmp_type :: "string option"
  vb_value :: "string option"

text \<open>The fields of \<open>session_capsule_ctx\<close> that the entry points read.\<close>

record session_ctx =
  handle :: "transport option"
  getlabel_flag :: int
  sprintval_flag :: int
  best_guess :: int
  retry_nosuch :: int

text \<open>
  The attributes the C code sets on a new \<open>SNMPVariable\<close>; an attribute it does not set
  is \<open>None\<close>.
\<close>

record snmp_variable =
  sv_root_oid :: "string option"
  sv_oid :: "string option"
  sv_oid_index :: "string option"
  sv_snmp_type :: "string option"
  sv_value :: "string option"

text \<open>
  How an entry point ends: with the list it returns; with \<open>NULL\<close> and an exception
  set; with \<open>NULL\<close> and no exception of its own (\<open>error = 1\<close>); with an integer or
  with \<open>None\<close> (the write entry point); or by reading through a \<open>NULL\<close> pointer.
  The parsing of the Python arguments, the look-up of the session context, the text
  of the log messages, the error attributes written back to the session object and
  failures of the Python allocator are not modelled.
\<close>

datatype outcome =
    Results "snmp_variable list"
  | Exception exc
  | ErrorReturn
  | ReturnInt int
  | ReturnNone
  | NullPointerRead

definition ASN_INTEGER :: int where "ASN_INTEGER = 2"
definition ASN_BIT_STR :: int where "ASN_BIT_STR = 3"
definition ASN_OCTET_STR :: int where "ASN_OCTET_STR = 4"
definition ASN_OBJECT_ID :: int where "ASN_OBJECT_ID = 6"
definition ASN_IPADDRESS :: int where "ASN_IPADDRESS = 64"
definition ASN_COUNTER :: int where "ASN_COUNTER = 65"
definition ASN_GAUGE :: int where "ASN_GAUGE = 66"
definition ASN_TIMETICKS :: int where "ASN_TIMETICKS = 67"
definition ASN_OPAQUE :: int where "ASN_OPAQUE = 68"
definition ASN_COUNTER64 :: int where "ASN_COUNTER64 = 70"
definition ASN_UINTEGER :: int where "ASN_UINTEGER = 71"

definition translate_asn_type :: "int \<Rightarrow> int" where
  "translate_asn_type type =
     (if type = ASN_INTEGER then TYPE_INTEGER
      else if type = ASN_OCTET_STR then TYPE_OCTETSTR
      else if type = ASN_OPAQUE then TYPE_OPAQUE
      else if type = ASN_OBJECT_ID then TYPE_OBJID
      else if type = ASN_TIMETICKS then TYPE_TIMETICKS
      else if type = ASN_GAUGE then TYPE_GAUGE
      else if type = ASN_COUNTER then TYPE_COUNTER
      else if type = ASN_IPADDRESS then TYPE_IPADDR
      else if type = ASN_BIT_STR then TYPE_BITSTRING
      else if type = ASN_NULL then TYPE_NULL
      else if type = SNMP_ENDOFMIBVIEW \<or> type = SNMP_NOSUCHOBJECT
              \<or> type = SNMP_NOSUCHINSTANCE then type
      else if type = ASN_UINTEGER then TYPE_UINTEGER
      else if type = ASN_COUNTER64 then TYPE_COUNTER64
      else TYPE_OTHER)"

section \<open>Loading a batch\<close>

text \<open>
  One turn of the loop of \<open>snmp_op_data_load\<close> gives the numeric path of an entry: the
  first \<open>oid_arr_len\<close> cells of its array, none when an attribute cannot be read.
  \<open>mem\<close> is the content of the fresh array and of \<open>newname\<close>.
\<close>

definition load_entry :: "netsnmp \<Rightarrow> oid_buf \<Rightarrow> int \<Rightarrow> py_varbind \<Rightarrow> nat list" where
  "load_entry lib mem bg vb =
     (case vb_oid vb of
        None \<Rightarrow> []
      | Some t \<Rightarrow>
          (case vb_oid_index vb of
             None \<Rightarrow> []
           | Some i \<Rightarrow>
               (case tag2oid lib mem (Some t) (Some i) mem bg of
                  (tp, arr, len, ty) \<Rightarrow> buf_take arr len)))"

definition unknown_object_id :: "py_varbind \<Rightarrow> exc" where
  "unknown_object_id vb =
     EasySNMPUnknownObjectIDError
       (''unknown object id ('' @ (case vb_oid vb of None \<Rightarrow> ''<null>'' | Some t \<Rightarrow> t) @ '')'')"

text \<open>
  \<open>snmp_op_data_load\<close>: the paths and the tags of the entries, or the way the call ends
  at the first entry whose path has length 0.  There the code first logs the tag with
  \<open>%s\<close> and then raises the exception.  When the attribute \<open>oid\<close> could not be read
  the tag is \<open>NULL\<close>: \<open>py_log_msg\<close> hands it to \<open>PyUnicode_FromFormatV\<close>, which reads
  through it, and the exception is never raised.
\<close>

fun snmp_op_data_load ::
  "netsnmp \<Rightarrow> oid_buf \<Rightarrow> int \<Rightarrow> py_varbind list \<Rightarrow> outcome + (nat list \<times> string) list" where
  "snmp_op_data_load lib mem bg [] = Inr []"
| "snmp_op_data_load lib mem bg (vb # vbs) =
     (if load_entry lib mem bg vb = [] then
        (case vb_oid vb of
           None \<Rightarrow> Inl NullPointerRead
         | Some t \<Rightarrow> Inl (Exception (unknown_object_id vb)))
      else
        (case snmp_op_data_load lib mem bg vbs of
           Inl out \<Rightarrow> Inl out
         | Inr es \<Rightarrow>
             Inr ((load_entry lib mem bg vb,
                   (case vb_oid vb of None \<Rightarrow> [] | Some t \<Rightarrow> t)) # es)))"

section \<open>Reading the variables of a response\<close>

definition send_pdu_request ::
  "nat \<Rightarrow> netsnmp \<Rightarrow> session_ctx \<Rightarrow> pdu \<Rightarrow> pdu list \<Rightarrow> sync_result option \<times> retry_state" where
  "send_pdu_request fuel lib ctx p log =
     send_sync_pdu fuel (snmp_errstring lib) (snmp_api_errstring lib) (handle ctx) p
       (retry_nosuch ctx) None log"

text \<open>The test that follows every \<open>send_pdu_request\<close>.\<close>

definition check_send :: "sync_result \<Rightarrow> outcome option" where
  "check_send r =
     (if status r \<noteq> STAT_SUCCESS \<or> raised r \<noteq> None then
        (case raised r of Some e \<Rightarrow> Some (Exception e) | None \<Rightarrow> Some ErrorReturn)
      else None)"

text \<open>
  \<open>__is_leaf\<close>, and \<open>read_variable\<close>.  After the look-up of the node \<open>tp\<close> the code
  logs \<open>tp->type\<close> in either branch of its test for a leaf: without a node it reads
  through \<open>NULL\<close>, and the result is \<open>None\<close>.
\<close>

definition NON_LEAF_NAME :: int where "NON_LEAF_NAME = 4"

definition is_leaf :: "tree option \<Rightarrow> bool" where
  "is_leaf tp =
     (case tp of
        None \<Rightarrow> False
      | Some t \<Rightarrow>
          (if fst (get_type_str (ttype t)) \<noteq> 0 then True
           else
             (case parent t of
                None \<Rightarrow> False
              | Some q \<Rightarrow> fst (get_type_str (ttype q)) \<noteq> 0)))"

definition read_variable ::
  "netsnmp \<Rightarrow> session_ctx \<Rightarrow> string \<Rightarrow> variable \<Rightarrow> snmp_variable option" where
  "read_variable lib ctx initial_oid v =
     (case sprint_objid_tree lib (name v) of
        None \<Rightarrow> None
      | Some tp \<Rightarrow>
          (let flag = (if is_leaf (Some tp) then getlabel_flag ctx
                       else or (getlabel_flag ctx) NON_LEAF_NAME)
           in Some \<lparr>sv_root_oid = Some initial_oid,
                     sv_oid = Some (fst (label_iid lib (name v) flag)),
                     sv_oid_index = Some (snd (label_iid lib (name v) flag)),
                     sv_snmp_type =
                       Some (snd (get_type_str (translate_asn_type (vtype v)))),
                     sv_value = Some (print_value lib v tp (sprintval_flag ctx))\<rparr>))"

text \<open>The record appended for a no-such-object or no-such-instance variable.\<close>

definition placeholder :: "string \<Rightarrow> int \<Rightarrow> snmp_variable" where
  "placeholder initial_oid type =
     \<lparr>sv_root_oid = Some initial_oid, sv_oid = Some initial_oid, sv_oid_index = None,
      sv_snmp_type = Some (snd (get_type_str type)), sv_value = None\<rparr>"

text \<open>
  The test for a variable outside the requested subtree: its name is shorter than the
  path, or \<open>memcmp\<close> finds a difference within the length of the path.
\<close>

definition out_of_scope :: "nat list \<Rightarrow> variable \<Rightarrow> bool" where
  "out_of_scope oid_arr v =
     (length (name v) < length oid_arr \<or> take (length oid_arr) (name v) \<noteq> oid_arr)"

text \<open>
  The loop over the variables of a response in \<open>netsnmp_get\<close>: the result list, or
  \<open>NullPointerRead\<close> when \<open>read_variable\<close> finds no node for a variable.
\<close>

fun get_vars ::
  "netsnmp \<Rightarrow> session_ctx \<Rightarrow> string \<Rightarrow> nat list \<Rightarrow> variable list \<Rightarrow> snmp_variable list
    \<Rightarrow> outcome + snmp_variable list" where
  "get_vars lib ctx initial_oid oid_arr [] acc = Inr acc"
| "get_vars lib ctx initial_oid oid_arr (v # vs) acc =
     (if vtype v = SNMP_ENDOFMIBVIEW then Inr acc
      else if vtype v = SNMP_NOSUCHOBJECT \<or> vtype v = SNMP_NOSUCHINSTANCE
        then Inr (acc @ [placeholder initial_oid (vtype v)])
      else if out_of_scope oid_arr v then Inr acc
      else
        (case read_variable lib ctx initial_oid v of
           None \<Rightarrow> Inl NullPointerRead
         | Some r \<Rightarrow> get_vars lib ctx initial_oid oid_arr vs (acc @ [r])))"

text \<open>
  The loop over the entries in \<open>netsnmp_get\<close>; its inner \<open>while (notdone)\<close> runs once.
  The second component is the list of the requests sent.
\<close>

fun get_entries ::
  "nat \<Rightarrow> netsnmp \<Rightarrow> session_ctx \<Rightarrow> (nat list \<times> string) list \<Rightarrow> snmp_variable list
    \<Rightarrow> pdu list \<Rightarrow> outcome option \<times> pdu list" where
  "get_entries fuel lib ctx [] acc log = (Some (Results acc), log)"
| "get_entries fuel lib ctx ((oid_arr, initial_oid) # es) acc log =
     (case send_pdu_request fuel lib ctx
             (snmp_add_null_var (snmp_pdu_create SNMP_MSG_GET) oid_arr) log of
        (None, s) \<Rightarrow> (None, sent s)
      | (Some r, s) \<Rightarrow>
          (case check_send r of
             Some out \<Rightarrow> (Some out, sent s)
           | None \<Rightarrow>
               (case response r of
                  None \<Rightarrow> (Some NullPointerRead, sent s)
                | Some resp \<Rightarrow>
                    (case get_vars lib ctx initial_oid oid_arr (variables resp) acc of
                       Inl out \<Rightarrow> (Some out, sent s)
                     | Inr acc' \<Rightarrow> get_entries fuel lib ctx es acc' (sent s)))))"

definition netsnmp_get ::
  "nat \<Rightarrow> netsnmp \<Rightarrow> oid_buf \<Rightarrow> session_ctx \<Rightarrow> py_varbind list \<Rightarrow> outcome option \<times> pdu list" where
  "netsnmp_get fuel lib mem ctx varlist =
     (case snmp_op_data_load lib mem (best_guess ctx) varlist of
        Inl out \<Rightarrow> (Some out, [])
      | Inr es \<Rightarrow> get_entries fuel lib ctx es [] [])"

section \<open>The walk iterator\<close>

text \<open>
  The variables of a walk that the loop over a response changes: the result list, the
  request prepared for the next round (\<open>op_data.pdu\<close>, \<open>NULL\<close> once sent) and
  \<open>notdone\<close>.
\<close>

record walk_state =
  w_results :: "snmp_variable list"
  w_pdu :: "pdu option"
  w_notdone :: bool

text \<open>
  The loop over the variables of a response in \<open>netsnmp_walk\<close> and \<open>netsnmp_bulkwalk\<close>.
  The two differ in the request they prepare at the last variable, which is the
  argument \<open>next_req\<close>.  The result is the state after the loop, or \<open>NullPointerRead\<close>
  when \<open>read_variable\<close> finds no node for a variable.
\<close>

fun walk_vars ::
  "netsnmp \<Rightarrow> session_ctx \<Rightarrow> (nat list \<Rightarrow> pdu) \<Rightarrow> string \<Rightarrow> nat list \<Rightarrow> variable list
    \<Rightarrow> walk_state \<Rightarrow> outcome + walk_state" where
  "walk_vars lib ctx next_req initial_oid oid_arr [] w = Inr w"
| "walk_vars lib ctx next_req initial_oid oid_arr (v # vs) w =
     (if vtype v = SNMP_ENDOFMIBVIEW then Inr (w\<lparr>w_notdone := False\<rparr>)
      else if vtype v = SNMP_NOSUCHOBJECT \<or> vtype v = SNMP_NOSUCHINSTANCE
        then Inr (w\<lparr>w_results := w_results w @ [placeholder initial_oid (vtype v)],
                     w_notdone := False\<rparr>)
      else if out_of_scope oid_arr v then Inr (w\<lparr>w_notdone := False\<rparr>)
      else
        (case read_variable lib ctx initial_oid v of
           None \<Rightarrow> Inl NullPointerRead
         | Some r \<Rightarrow>
             walk_vars lib ctx next_req initial_oid oid_arr vs
               (w\<lparr>w_results := w_results w @ [r],
                  w_pdu := (if vs = [] then Some (next_req (name v)) else w_pdu w)\<rparr>)))"

text \<open>
  The loop \<open>while (notdone)\<close> for one starting path.  The agent decides how long it
  runs, so the rounds are counted; \<open>fuel\<close> bounds the passes of each send.  The first
  component is \<open>None\<close> when the count runs out, \<open>Inl\<close> when the whole call ends, \<open>Inr\<close>
  with the result list when this starting path is done.
\<close>

fun walk_rounds ::
  "nat \<Rightarrow> nat \<Rightarrow> netsnmp \<Rightarrow> session_ctx \<Rightarrow> (nat list \<Rightarrow> pdu) \<Rightarrow> string \<Rightarrow> nat list
    \<Rightarrow> walk_state \<Rightarrow> pdu list \<Rightarrow> (outcome + snmp_variable list) option \<times> pdu list" where
  "walk_rounds 0 fuel lib ctx next_req initial_oid oid_arr w log = (None, log)"
| "walk_rounds (Suc n) fuel lib ctx next_req initial_oid oid_arr w log =
     (case w_pdu w of
        None \<Rightarrow> (Some (Inl NullPointerRead), log)
      | Some p \<Rightarrow>
          (case send_pdu_request fuel lib ctx p log of
             (None, s) \<Rightarrow> (None, sent s)
           | (Some r, s) \<Rightarrow>
               (case check_send r of
                  Some out \<Rightarrow> (Some (Inl out), sent s)
                | None \<Rightarrow>
                    (case response r of
                       None \<Rightarrow> (Some (Inl NullPointerRead), sent s)
                     | Some resp \<Rightarrow>
                         (case walk_vars lib ctx next_req initial_oid oid_arr
                                 (variables resp) (w\<lparr>w_pdu := None\<rparr>) of
                            Inl out \<Rightarrow> (Some (Inl out), sent s)
                          | Inr w' \<Rightarrow>
                              if w_notdone w'
                              then walk_rounds n fuel lib ctx next_req initial_oid oid_arr
                                     w' (sent s)
                              else (Some (Inr (w_results w')), sent s))))))"

fun walk_entries ::
  "nat \<Rightarrow> netsnmp \<Rightarrow> session_ctx \<Rightarrow> (nat list \<Rightarrow> pdu) \<Rightarrow> (nat list \<times> string) list
    \<Rightarrow> snmp_variable list \<Rightarrow> pdu list \<Rightarrow> outcome option \<times> pdu list" where
  "walk_entries fuel lib ctx next_req [] acc log = (Some (Results acc), log)"
| "walk_entries fuel lib ctx next_req ((oid_arr, initial_oid) # es) acc log =
     (case walk_rounds fuel fuel lib ctx next_req initial_oid oid_arr
             \<lparr>w_results = acc, w_pdu = Some (next_req oid_arr), w_notdone = True\<rparr> log of
        (None, l) \<Rightarrow> (None, l)
      | (Some (Inl out), l) \<Rightarrow> (Some out, l)
      | (Some (Inr acc'), l) \<Rightarrow> walk_entries fuel lib ctx next_req es acc' l)"


definition getnext_req :: "nat list \<Rightarrow> pdu" where
  "getnext_req n = snmp_add_null_var (snmp_pdu_create SNMP_MSG_GETNEXT) n"


definition netsnmp_walk ::
  "nat \<Rightarrow> netsnmp \<Rightarrow> oid_buf \<Rightarrow> session_ctx \<Rightarrow> py_varbind list \<Rightarrow> outcome option \<times> pdu list" where
  "netsnmp_walk fuel lib mem ctx varlist =
     (case snmp_op_data_load lib mem (best_guess ctx) varlist of
        Inl out \<Rightarrow> (Some out, [])
      | Inr es \<Rightarrow> walk_entries fuel lib ctx getnext_req es [] [])"


section \<open>The varbind marshaller and the write entry point\<close>

text \<open>
  A buffer of characters read as a C string ends at its first NUL.  \<open>snprintf_d\<close> is
  the text \<open>snprintf\<close> writes for \<open>"%d"\<close>.
\<close>

definition c_str :: "string \<Rightarrow> string" where
  "c_str buf = takeWhile (\<lambda>c. c \<noteq> CHR 0x00) buf"

function dec_nat :: "nat \<Rightarrow> string" where
  "dec_nat n =
     (if n < 10 then [char_of (48 + n)]
      else dec_nat (n div 10) @ [char_of (48 + n mod 10)])"
  by pat_completeness auto
termination
  by (relation "measure id") auto

definition snprintf_d :: "int \<Rightarrow> string" where
  "snprintf_d i = (if i < 0 then CHR ''-'' # dec_nat (nat (- i)) else dec_nat (nat i))"

text \<open>
  \<open>__add_var_val_str\<close> appends one variable to the PDU and reports whether it had a
  value to give it.  \<open>junk\<close> is the content of the fresh \<open>long\<close> that \<open>sscanf\<close> leaves
  untouched when it converts nothing.
\<close>

definition add_var_val_str ::
  "netsnmp \<Rightarrow> int \<Rightarrow> pdu \<Rightarrow> nat list \<Rightarrow> string option \<Rightarrow> nat \<Rightarrow> int \<Rightarrow> int \<times> pdu" where
  "add_var_val_str lib junk p nm v len type =
     (let add = (\<lambda>t x. p\<lparr>variables := variables p @ [\<lparr>name = nm, vtype = t, val = x\<rparr>]\<rparr>);
          uint = (\<lambda>t. case v of
                     Some s \<Rightarrow>
                       (SUCCESS, add t (UIntVal (case sscanf_lu (c_str s) of
                                                  None \<Rightarrow> junk | Some n \<Rightarrow> int n)))
                   | None \<Rightarrow> (FAILURE, add t (UIntVal 0)))
      in if type = TYPE_INTEGER \<or> type = TYPE_INTEGER32 then
           (case v of
              Some s \<Rightarrow> (SUCCESS, add ASN_INTEGER (IntVal (strtol lib (c_str s))))
            | None \<Rightarrow> (FAILURE, add ASN_INTEGER (IntVal 0)))
         else if type = TYPE_GAUGE \<or> type = TYPE_UNSIGNED32 then uint ASN_GAUGE
         else if type = TYPE_COUNTER then uint ASN_COUNTER
         else if type = TYPE_TIMETICKS then uint ASN_TIMETICKS
         else if type = TYPE_UINTEGER then uint ASN_UINTEGER
         else if type = TYPE_OCTETSTR \<or> type = TYPE_BITSTRING \<or> type = TYPE_OPAQUE then
           (case v of
              Some s \<Rightarrow>
                (if len \<noteq> 0 then (SUCCESS, add ASN_OCTET_STR (Bytes (take len s)))
                 else (FAILURE, add ASN_OCTET_STR (Bytes [])))
            | None \<Rightarrow> (FAILURE, add ASN_OCTET_STR (Bytes [])))
         else if type = TYPE_IPADDR then
           (case v of
              Some s \<Rightarrow> (SUCCESS, add ASN_IPADDRESS (AddrVal (inet_addr lib (c_str s))))
            | None \<Rightarrow> (FAILURE, add ASN_IPADDRESS (AddrVal 0)))
         else if type = TYPE_OBJID then
           (case v of
              None \<Rightarrow> (FAILURE, add ASN_OBJECT_ID NoVal)
            | Some s \<Rightarrow>
                (case snmp_parse_oid lib (c_str s) of
                   None \<Rightarrow> (FAILURE, add ASN_OBJECT_ID NoVal)
                 | Some ids \<Rightarrow> (SUCCESS, add ASN_OBJECT_ID (OidVal ids))))
         else (FAILURE, add ASN_NULL NoVal))"

text \<open>
  The type of an entry of a write batch: the type of the MIB node, or else the type the
  caller names in \<open>snmp_type\<close>.
\<close>

definition set_type :: "int \<Rightarrow> py_varbind \<Rightarrow> outcome + int" where
  "set_type ty vb =
     (if ty = TYPE_UNKNOWN then
        (case vb_snmp_type vb of
           None \<Rightarrow> Inl ReturnNone
         | Some ts \<Rightarrow>
             (if translate_appl_type (Some ts) = TYPE_UNKNOWN
              then Inl (Exception (EasySNMPUndeterminedTypeError
                                     ''a type could not be determine for the object''))
              else Inr (translate_appl_type (Some ts))))
      else Inr ty)"

text \<open>
  The content of \<open>tmp_val_str\<close>: the value of the entry, cut to the size of the buffer,
  and overwritten with the number of an enumeration label when the entry is an integer
  and enumerations are in use.
\<close>

definition set_value :: "int \<Rightarrow> int \<Rightarrow> tree option \<Rightarrow> string \<Rightarrow> string" where
  "set_value ty use_enums tp v =
     (let tmp = take (STR_BUF_SIZE - 1) v
      in if ty = TYPE_INTEGER \<and> use_enums \<noteq> 0 then
           (case tp of
              None \<Rightarrow> tmp
            | Some t \<Rightarrow>
                (case map_of (enums t) (c_str v) of
                   None \<Rightarrow> tmp
                 | Some n \<Rightarrow>
                     snprintf_d n @ CHR 0x00 # drop (Suc (length (snprintf_d n))) tmp))
         else tmp)"

text \<open>
  The loop of \<open>netsnmp_set\<close> over the entries: the request built, or the way the call
  ends before anything is sent.  All entries share the array \<open>oid_arr\<close>.
\<close>

fun set_entries ::
  "netsnmp \<Rightarrow> oid_buf \<Rightarrow> int \<Rightarrow> int \<Rightarrow> int \<Rightarrow> py_varbind list \<Rightarrow> oid_buf \<Rightarrow> pdu
    \<Rightarrow> outcome + pdu" where
  "set_entries lib newname0 junk bg use_enums [] oid_arr p = Inr p"
| "set_entries lib newname0 junk bg use_enums (vb # vbs) oid_arr p =
     (case (case vb_oid vb of
              None \<Rightarrow> None
            | Some t \<Rightarrow>
                (case vb_oid_index vb of
                   None \<Rightarrow> None
                 | Some i \<Rightarrow> Some (tag2oid lib newname0 (Some t) (Some i) oid_arr bg))) of
        None \<Rightarrow> Inl (Exception (unknown_object_id vb))
      | Some (tp, arr, len, ty) \<Rightarrow>
          if len = 0 then Inl (Exception (unknown_object_id vb))
          else
            (case set_type ty vb of
               Inl out \<Rightarrow> Inl out
             | Inr ty' \<Rightarrow>
                 (case vb_value vb of
                    None \<Rightarrow> Inl ReturnNone
                  | Some v \<Rightarrow>
                      set_entries lib newname0 junk bg use_enums vbs arr
                        (snd (add_var_val_str lib junk p (buf_take arr len)
                                (Some (set_value ty' use_enums tp v))
                                (length (take (STR_BUF_SIZE - 1) v)) ty')))))"

text \<open>
  \<open>netsnmp_set\<close>.  The request goes out through \<open>__send_sync_pdu\<close> with
  \<open>NO_RETRY_NOSUCH\<close> and without a mask; any status other than 0 ends the call with
  \<open>NULL\<close>.
\<close>

definition netsnmp_set ::
  "nat \<Rightarrow> netsnmp \<Rightarrow> oid_buf \<Rightarrow> int \<Rightarrow> session_ctx \<Rightarrow> int \<Rightarrow> py_varbind list
    \<Rightarrow> outcome option \<times> pdu list" where
  "netsnmp_set fuel lib newname0 junk ctx use_enums varlist =
     (case set_entries lib newname0 junk (best_guess ctx) use_enums varlist (\<lambda>i. 0)
             (snmp_pdu_create SNMP_MSG_SET) of
        Inl out \<Rightarrow> (Some out, [])
      | Inr p \<Rightarrow>
          (case send_sync_pdu fuel (snmp_errstring lib) (snmp_api_errstring lib)
                  (handle ctx) p NO_RETRY_NOSUCH None [] of
             (None, s) \<Rightarrow> (None, sent s)
           | (Some r, s) \<Rightarrow>
               (if status r \<noteq> 0 then
                  (case raised r of
                     Some e \<Rightarrow> (Some (Exception e), sent s)
                   | None \<Rightarrow> (Some ErrorReturn, sent s))
                else (Some (ReturnInt 1), sent s))))"

section \<open>Example inputs\<close>

text \<open>Concrete requests and agents on which the functions above are evaluated.\<close>

definition null_var :: "nat list \<Rightarrow> variable" where
  "null_var n = \<lparr>name = n, vtype = ASN_NULL, val = NoVal\<rparr>"

definition errstring0 :: "int \<Rightarrow> string" where
  "errstring0 e = ''(error)''"

definition request_of :: "int \<Rightarrow> nat list list \<Rightarrow> pdu" where
  "request_of cmd names = foldl snmp_add_null_var (snmp_pdu_create cmd) names"

definition batch5 :: pdu where
  "batch5 = request_of SNMP_MSG_GET
     [[1,3,6,1,2,1,1,1,0], [1,3,6,1,2,1,1,2,0], [1,3,6,1,2,1,1,3,0],
      [1,3,6,1,2,1,1,4,0], [1,3,6,1,2,1,1,5,0]]"

definition batch1 :: pdu where
  "batch1 = request_of SNMP_MSG_GET [[1,3,6,1,2,1,1,9,0]]"

text \<open>An agent that answers every request with no-such-name for its first entry.\<close>

definition agent_rejects_first :: transport where
  "agent_rejects_first k p =
     \<lparr>r_status = STAT_SUCCESS,
      r_response = Some (p\<lparr>command := SNMP_MSG_RESPONSE, errstat := SNMP_ERR_NOSUCHNAME,
                            errindex := 1\<rparr>),
      r_errno = 0, r_snmp_errno = 0, r_detail = []\<rparr>"

text \<open>
  An agent that answers every request with no-such-name for the first of two entries,
  whatever the request held.
\<close>

definition agent_pads :: transport where
  "agent_pads k p =
     \<lparr>r_status = STAT_SUCCESS,
      r_response = Some (p\<lparr>command := SNMP_MSG_RESPONSE, errstat := SNMP_ERR_NOSUCHNAME,
                            errindex := 1,
                            variables := [null_var [1,3,6,1,2,1,1,8,0],
                                          null_var [1,3,6,1,2,1,1,9,0]]\<rparr>),
      r_errno = 0, r_snmp_errno = 0, r_detail = []\<rparr>"

text \<open>A transport that fails with the generic error status and no response.\<close>

definition transport_generic_error :: transport where
  "transport_generic_error k p =
     \<lparr>r_status = STAT_ERROR, r_response = None, r_errno = 0, r_snmp_errno = - 1,
      r_detail = ''Generic error''\<rparr>"

text \<open>The state of the orchestrator before its only pass over \<open>batch1\<close>.\<close>

definition only_pass :: retry_state where
  "only_pass =
     \<lparr>rs_pdu = batch1, retry_num = 0, last_errindex = 0, invalid_oids = Some {},
      sent = []\<rparr>"

text \<open>
  The state of the orchestrator before its second pass over \<open>batch5\<close>, the first pass
  having elided entry 1.
\<close>

definition second_pass :: retry_state where
  "second_pass =
     \<lparr>rs_pdu = request_of SNMP_MSG_GET
        [[1,3,6,1,2,1,1,2,0], [1,3,6,1,2,1,1,3,0], [1,3,6,1,2,1,1,4,0],
         [1,3,6,1,2,1,1,5,0]],
      retry_num = 1, last_errindex = 1, invalid_oids = Some {0}, sent = [batch5]\<rparr>"

text \<open>
  A library with no MIB loaded: every look-up fails and leaves its arguments as they
  are.  Fresh memory holds zeros.
\<close>

definition lib0 :: netsnmp where
  "lib0 = \<lparr>snmp_errstring = errstring0, snmp_api_errstring = errstring0,
     get_node = (\<lambda>t b n. (0, b, n)), get_wild_node = (\<lambda>t b n. (0, b, n)),
     read_objid = (\<lambda>t b n. (0, b, n)), find_node = (\<lambda>t. None), get_tree = (\<lambda>p. None),
     strtol = (\<lambda>s. 0), inet_addr = (\<lambda>s. 0), snmp_parse_oid = (\<lambda>s. None),
     sprint_objid_tree = (\<lambda>n. None), label_iid = (\<lambda>n f. ([], [])),
     print_value = (\<lambda>v t f. [])\<rparr>"


text \<open>An entry whose attribute \<open>oid\<close> cannot be read.\<close>

definition entry_without_oid :: py_varbind where
  "entry_without_oid =
     \<lparr>vb_oid = None, vb_oid_index = Some ''0'', vb_snmp_type = None, vb_value = None\<rparr>"

definition mem0 :: oid_buf where
  "mem0 = (\<lambda>i. 0)"

definition entry :: "string \<Rightarrow> string \<Rightarrow> py_varbind" where
  "entry t i = \<lparr>vb_oid = Some t, vb_oid_index = Some i, vb_snmp_type = None, vb_value = None\<rparr>"

definition session_of :: "transport \<Rightarrow> int \<Rightarrow> session_ctx" where
  "session_of tr rn =
     \<lparr>handle = Some tr, getlabel_flag = 0, sprintval_flag = 0, best_guess = 0,
      retry_nosuch = rn\<rparr>"

definition reply_with :: "variable list \<Rightarrow> reply" where
  "reply_with vs =
     \<lparr>r_status = STAT_SUCCESS,
      r_response = Some \<lparr>command = SNMP_MSG_RESPONSE, errstat = 0, errindex = 0,
                         variables = vs\<rparr>,
      r_errno = 0, r_snmp_errno = 0, r_detail = []\<rparr>"

text \<open>
  Agents for a walk of \<open>.1.3.6.1.2.1.1\<close>: one answers with an integer of the next
  subtree, one with a no-such-instance marker named in the next subtree, one with three
  strings of the subtree and then with the end-of-view marker.
\<close>

definition agent_next_subtree :: transport where
  "agent_next_subtree k p =
     reply_with [\<lparr>name = [1,3,6,1,2,1,2,1,0], vtype = ASN_INTEGER, val = IntVal 3\<rparr>]"

definition agent_no_instance :: transport where
  "agent_no_instance k p =
     reply_with [\<lparr>name = [1,3,6,1,2,1,2,1,0], vtype = SNMP_NOSUCHINSTANCE, val = NoVal\<rparr>]"

definition three_strings :: "variable list" where
  "three_strings =
     [\<lparr>name = [1,3,6,1,2,1,1,1,0], vtype = ASN_OCTET_STR, val = Bytes ''a''\<rparr>,
      \<lparr>name = [1,3,6,1,2,1,1,2,0], vtype = ASN_OCTET_STR, val = Bytes ''b''\<rparr>,
      \<lparr>name = [1,3,6,1,2,1,1,3,0], vtype = ASN_OCTET_STR, val = Bytes ''c''\<rparr>]"

definition agent_three_then_end :: transport where
  "agent_three_then_end k p =
     (if k = 0 then reply_with three_strings
      else reply_with [\<lparr>name = [1,3,6,1,2,1,1,3,0], vtype = SNMP_ENDOFMIBVIEW,
                        val = NoVal\<rparr>])"

text \<open>A write batch of one entry, and the request \<open>netsnmp_set\<close> builds from it.\<close>

definition write_batch :: "py_varbind list" where
  "write_batch =
     [\<lparr>vb_oid = Some ''.1.3.6.1.2.1.1.5'', vb_oid_index = Some ''0'',
       vb_snmp_type = Some ''s'', vb_value = Some ''host''\<rparr>]"

definition write_request :: pdu where
  "write_request =
     \<lparr>command = SNMP_MSG_SET, errstat = SNMP_DEFAULT_ERRSTAT,
      errindex = SNMP_DEFAULT_ERRINDEX,
      variables = [\<lparr>name = [1,3,6,1,2,1,1,5,0], vtype = ASN_OCTET_STR,
                    val = Bytes ''host''\<rparr>]\<rparr>"

section \<open>Properties of the type translator\<close>

lemmas type_consts =
  TYPE_UNKNOWN_def TYPE_OTHER_def TYPE_OBJID_def TYPE_OCTETSTR_def TYPE_INTEGER_def
  TYPE_NETADDR_def TYPE_IPADDR_def TYPE_COUNTER_def TYPE_GAUGE_def TYPE_TIMETICKS_def
  TYPE_OPAQUE_def TYPE_NULL_def TYPE_COUNTER64_def TYPE_BITSTRING_def
  TYPE_NSAPADDRESS_def TYPE_UINTEGER_def TYPE_UNSIGNED32_def TYPE_INTEGER32_def
  TYPE_TRAPTYPE_def TYPE_NOTIFTYPE_def SNMP_NOSUCHOBJECT_def SNMP_NOSUCHINSTANCE_def
  SNMP_ENDOFMIBVIEW_def

lemmas stat_consts =
  STAT_SUCCESS_def STAT_ERROR_def STAT_TIMEOUT_def SNMP_ERR_NOERROR_def
  SNMP_ERR_NOSUCHNAME_def SNMPERR_BAD_SESSION_def

lemmas msg_consts =
  SNMP_MSG_GET_def SNMP_MSG_GETNEXT_def SNMP_MSG_RESPONSE_def SNMP_MSG_SET_def
  SNMP_MSG_GETBULK_def

lemmas asn_consts =
  ASN_NULL_def ASN_INTEGER_def ASN_BIT_STR_def ASN_OCTET_STR_def ASN_OBJECT_ID_def
  ASN_IPADDRESS_def ASN_COUNTER_def ASN_GAUGE_def ASN_TIMETICKS_def ASN_OPAQUE_def
  ASN_COUNTER64_def ASN_UINTEGER_def

lemma tolower_c_simps:
  "tolower_c c = (if 65 \<le> (of_char c :: nat) \<and> (of_char c :: nat) \<le> 90
                  then char_of ((of_char c :: nat) + 32) else c)"
  by (simp add: tolower_c_def isupper_c_def)

text \<open>
  Claim C8.  Whenever \<open>__get_type_str\<close> succeeds on a type tag and gives a non-empty
  name, \<open>__translate_appl_type\<close> maps that name back to the tag.
\<close>

theorem type_name_round_trip:
  assumes "get_type_str t = (st, nm)" and "st = SUCCESS" and "nm \<noteq> []"
  shows "translate_appl_type (Some nm) = t"
  using assms
  by (auto simp add: get_type_str_def translate_appl_type_def strncasecmp_eq_def
      strcasecmp_eq_def tolower_c_simps type_consts SUCCESS_def FAILURE_def
      split: if_splits)

theorem type_name_round_trip_witness:
  "get_type_str TYPE_COUNTER64 = (SUCCESS, ''COUNTER64'') \<and> SUCCESS = SUCCESS
   \<and> ''COUNTER64'' \<noteq> [] \<and> translate_appl_type (Some ''COUNTER64'') = TYPE_COUNTER64"
proof -
  have h: "get_type_str TYPE_COUNTER64 = (SUCCESS, ''COUNTER64'')"
    by (simp add: get_type_str_def type_consts)
  from type_name_round_trip [OF h refl] h show ?thesis by simp
qed

section \<open>Properties of the request orchestrator\<close>

lemma ulong_ulong_add: "ulong (ulong a + b) = ulong (a + b)"
  by (simp add: ulong_def mod_add_left_eq)

lemma snmp_fix_pdu_shrinks:
  "snmp_fix_pdu r c = Some p \<Longrightarrow>
     variables p \<noteq> [] \<and> length (variables p) < length (variables r)"
  by (auto simp add: snmp_fix_pdu_def Let_def split: if_splits)

lemma sync_round_retry:
  "sync_round es tr cmd rn s = (None, s') \<Longrightarrow>
     \<exists>resp. r_response (tr (length (sent s)) (rs_pdu s)) = Some resp
            \<and> snmp_fix_pdu resp cmd = Some (rs_pdu s')
            \<and> sent s' = sent s @ [rs_pdu s]"
  by (auto simp add: sync_round_def Let_def split: option.splits if_splits)

lemma sync_round_exit:
  "sync_round es tr cmd rn s = (Some r, s') \<Longrightarrow> sent s' = sent s @ [rs_pdu s]"
  by (auto simp add: sync_round_def Let_def split: option.splits if_splits)

text \<open>
  Against an agent whose responses never hold more entries than the request they
  answer, every resubmitted request is shorter than the one before and not empty, so
  the loop returns after at most as many exchanges as the request has entries.
\<close>

lemma send_sync_loop_terminates:
  assumes conf: "\<And>k q resp. r_response (tr k q) = Some resp \<Longrightarrow>
                   length (variables resp) \<le> length (variables q)"
  shows "max 1 (length (variables (rs_pdu s))) \<le> fuel \<Longrightarrow>
         \<exists>r s'. send_sync_loop fuel es tr cmd rn s = (Some r, s')
              \<and> length (sent s') \<le> length (sent s) + max 1 (length (variables (rs_pdu s)))"
proof (induction fuel arbitrary: s)
  case 0
  then show ?case by simp
next
  case (Suc n)
  obtain res s1 where round: "sync_round es tr cmd rn s = (res, s1)"
    by (cases "sync_round es tr cmd rn s")
  show ?case
  proof (cases res)
    case (Some r)
    with round have "sent s1 = sent s @ [rs_pdu s]"
      by (simp add: sync_round_exit)
    with round Some show ?thesis by simp
  next
    case None
    with round obtain resp where
      resp: "r_response (tr (length (sent s)) (rs_pdu s)) = Some resp" and
      fx: "snmp_fix_pdu resp cmd = Some (rs_pdu s1)" and
      log: "sent s1 = sent s @ [rs_pdu s]"
      using sync_round_retry by blast
    from conf [OF resp] snmp_fix_pdu_shrinks [OF fx]
    have small: "variables (rs_pdu s1) \<noteq> []"
      "length (variables (rs_pdu s1)) < length (variables (rs_pdu s))"
      by auto
    with Suc.prems have "max 1 (length (variables (rs_pdu s1))) \<le> n"
      by (cases "variables (rs_pdu s1)") auto
    from Suc.IH [OF this] obtain r s' where
      run: "send_sync_loop n es tr cmd rn s1 = (Some r, s')" and
      len: "length (sent s') \<le> length (sent s1) + max 1 (length (variables (rs_pdu s1)))"
      by blast
    from len log small
    have "length (sent s') \<le> length (sent s) + max 1 (length (variables (rs_pdu s)))"
      by (cases "variables (rs_pdu s1)") auto
    with run round None show ?thesis by simp
  qed
qed

lemma sync_round_no_entries_left:
  assumes "r_response (tr (length (sent s)) (rs_pdu s)) = Some resp"
    and "r_status (tr (length (sent s)) (rs_pdu s)) = STAT_SUCCESS"
    and "c_int (errstat resp) = SNMP_ERR_NOSUCHNAME"
    and "rn \<noteq> 0"
    and "snmp_fix_pdu resp cmd = None"
  shows "fst (sync_round es tr cmd rn s) =
           Some \<lparr>status = STAT_SUCCESS, response = Some resp, err_str = [],
                 err_num = 0, err_ind = 0, raised = None\<rparr>"
  using assms
  by (simp add: sync_round_def Let_def adjust_status_def stat_consts)

text \<open>
  Claim C1, evaluated on the code.  The transport fails with \<open>STAT_ERROR\<close> and the
  diagnostic text "Generic error".  The string compared with "Timeout" is the cleared
  buffer, the comparison holds when the two differ, and the call ends as a timeout: the
  status is \<open>STAT_TIMEOUT\<close> and the exception is \<open>EasySNMPTimeoutError\<close>.  The status
  stays \<open>STAT_ERROR\<close> only for a buffer that reads "Timeout".
\<close>

theorem stat_error_surfaces_as_timeout:
  "fst (send_sync_pdu 1 errstring0 errstring0 (Some transport_generic_error) batch1 0 None [])
     = Some \<lparr>status = STAT_TIMEOUT, response = None, err_str = ''Generic error'',
             err_num = 0, err_ind = - 1,
             raised = Some (EasySNMPTimeoutError
                              ''timed out while connecting to remote host'')\<rparr>
   \<and> adjust_status [] None STAT_ERROR = STAT_TIMEOUT
   \<and> adjust_status ''Generic error'' None STAT_ERROR = STAT_TIMEOUT
   \<and> adjust_status ''Timeout'' None STAT_ERROR = STAT_ERROR"
  by code_simp

lemma round_rejects_first:
  assumes "variables (rs_pdu s) = v # vs" and "rn \<noteq> 0"
  shows "sync_round es agent_rejects_first cmd rn s =
     (let pos = (if last_errindex s = 0 \<or> last_errindex s > 1 then 0 else retry_num s);
          s2 = s\<lparr>sent := sent s @ [rs_pdu s],
                 invalid_oids := bitarray_set_bit (invalid_oids s) pos,
                 last_errindex := 1\<rparr>
      in if vs = []
         then (Some \<lparr>status = STAT_SUCCESS,
                     response = Some ((rs_pdu s)\<lparr>command := SNMP_MSG_RESPONSE,
                                        errstat := SNMP_ERR_NOSUCHNAME, errindex := 1\<rparr>),
                     err_str = [], err_num = 0, err_ind = 0, raised = None\<rparr>, s2)
         else (None, s2\<lparr>rs_pdu := (rs_pdu s)\<lparr>command := cmd, errstat := SNMP_DEFAULT_ERRSTAT,
                                      errindex := SNMP_DEFAULT_ERRINDEX, variables := vs\<rparr>,
                         retry_num := ulong (retry_num s + 1)\<rparr>))"
  using assms
  by (auto simp add: sync_round_def agent_rejects_first_def Let_def adjust_status_def
      stat_consts msg_consts c_int_def ulong_def snmp_fix_pdu_def)

text \<open>
  Claim C2.  A batch of five entries, an agent that reports error index 1 for every
  request, retry enabled, an empty mask.  After \<open>k\<close> passes the mask holds the positions
  \<open>0, \<dots>, k - 1\<close>: each pass sets the one position that the passes before it left
  clear.  The fifth pass leaves no entry to resubmit; the call returns success after five
  requests with five positions marked.
\<close>

theorem elision_ascending_marks_distinct:
  assumes "variables p = [v1, v2, v3, v4, v5]"
  shows "invalid_oids (snd (send_sync_pdu 0 es aes (Some agent_rejects_first) p 1 (Some {}) []))
           = Some {}
   \<and> invalid_oids (snd (send_sync_pdu 1 es aes (Some agent_rejects_first) p 1 (Some {}) []))
           = Some {0}
   \<and> invalid_oids (snd (send_sync_pdu 2 es aes (Some agent_rejects_first) p 1 (Some {}) []))
           = Some {0, 1}
   \<and> invalid_oids (snd (send_sync_pdu 3 es aes (Some agent_rejects_first) p 1 (Some {}) []))
           = Some {0, 1, 2}
   \<and> invalid_oids (snd (send_sync_pdu 4 es aes (Some agent_rejects_first) p 1 (Some {}) []))
           = Some {0, 1, 2, 3}
   \<and> fst (send_sync_pdu 4 es aes (Some agent_rejects_first) p 1 (Some {}) []) = None
   \<and> invalid_oids (snd (send_sync_pdu 5 es aes (Some agent_rejects_first) p 1 (Some {}) []))
           = Some {0, 1, 2, 3, 4}
   \<and> map_option status (fst (send_sync_pdu 5 es aes (Some agent_rejects_first) p 1 (Some {}) []))
           = Some STAT_SUCCESS
   \<and> length (sent (snd (send_sync_pdu 5 es aes (Some agent_rejects_first) p 1 (Some {}) [])))
           = 5
   \<and> card {0, 1, 2, 3, 4 :: nat} = 5"
  using assms
  by (simp add: send_sync_pdu_def eval_nat_numeral round_rejects_first Let_def
      bitarray_set_bit_def ulong_def insert_commute)

theorem elision_ascending_marks_distinct_witness:
  "variables batch5 =
     [null_var [1,3,6,1,2,1,1,1,0], null_var [1,3,6,1,2,1,1,2,0],
      null_var [1,3,6,1,2,1,1,3,0], null_var [1,3,6,1,2,1,1,4,0],
      null_var [1,3,6,1,2,1,1,5,0]]
   \<and> invalid_oids (snd (send_sync_pdu 3 errstring0 errstring0 (Some agent_rejects_first)
                        batch5 1 (Some {}) [])) = Some {0, 1, 2}
   \<and> invalid_oids (snd (send_sync_pdu 5 errstring0 errstring0 (Some agent_rejects_first)
                        batch5 1 (Some {}) [])) = Some {0, 1, 2, 3, 4}
   \<and> map_option status (fst (send_sync_pdu 5 errstring0 errstring0
                                (Some agent_rejects_first) batch5 1 (Some {}) []))
       = Some STAT_SUCCESS"
proof -
  have h: "variables batch5 =
     [null_var [1,3,6,1,2,1,1,1,0], null_var [1,3,6,1,2,1,1,2,0],
      null_var [1,3,6,1,2,1,1,3,0], null_var [1,3,6,1,2,1,1,4,0],
      null_var [1,3,6,1,2,1,1,5,0]]"
    by (simp add: batch5_def request_of_def snmp_add_null_var_def snmp_pdu_create_def
        null_var_def)
  from elision_ascending_marks_distinct [OF h, of errstring0 errstring0] h
  show ?thesis by blast
qed

text \<open>
  Claim C3 as stated fails when the new error index equals the last one.  In the second
  pass over \<open>batch5\<close> the last index and the new index are both 1 and one entry has been
  elided: the position set is \<open>1 - 1 + 1 = 1\<close>, not \<open>1 - 1 = 0\<close>.
\<close>

theorem equal_error_index_is_offset:
  "invalid_oids (snd (sync_round errstring0 agent_rejects_first SNMP_MSG_GET 1 second_pass))
     = bitarray_set_bit (invalid_oids second_pass) (1 - 1 + retry_num second_pass)
   \<and> invalid_oids (snd (sync_round errstring0 agent_rejects_first SNMP_MSG_GET 1 second_pass))
     \<noteq> bitarray_set_bit (invalid_oids second_pass) (1 - 1)
   \<and> last_errindex second_pass = 1
   \<and> map_option errindex (r_response (agent_rejects_first 1 (rs_pdu second_pass))) = Some 1"
  by code_simp

text \<open>
  Claim C3, amended.  In a pass after the first (the last error index is set), with retry
  enabled and a no-such-name response reporting index \<open>E\<close>: the position set is
  \<open>E - 1\<close> when \<open>E\<close> is less than the last index, and \<open>E - 1\<close> plus the retry count when
  \<open>E\<close> is greater than or equal to it.
\<close>

theorem nosuch_round_mask:
  assumes "r_response (tr (length (sent s)) (rs_pdu s)) = Some resp"
    and "r_status (tr (length (sent s)) (rs_pdu s)) = STAT_SUCCESS"
    and "c_int (errstat resp) = SNMP_ERR_NOSUCHNAME"
    and "rn \<noteq> 0"
    and "last_errindex s \<noteq> 0"
  shows "invalid_oids (snd (sync_round es tr cmd rn s)) =
           bitarray_set_bit (invalid_oids s)
             (if ulong (errindex resp) < last_errindex s then errindex resp - 1
              else errindex resp - 1 + retry_num s)"
  using assms
  by (auto simp add: sync_round_def Let_def adjust_status_def stat_consts
      bitarray_set_bit_def ulong_ulong_add split: option.splits)

theorem nosuch_round_mask_witness:
  "r_response (agent_rejects_first (length (sent second_pass)) (rs_pdu second_pass))
     = Some ((rs_pdu second_pass)\<lparr>command := SNMP_MSG_RESPONSE,
               errstat := SNMP_ERR_NOSUCHNAME, errindex := 1\<rparr>)
   \<and> r_status (agent_rejects_first (length (sent second_pass)) (rs_pdu second_pass))
       = STAT_SUCCESS
   \<and> c_int SNMP_ERR_NOSUCHNAME = SNMP_ERR_NOSUCHNAME
   \<and> (1 :: int) \<noteq> 0
   \<and> last_errindex second_pass \<noteq> 0
   \<and> invalid_oids (snd (sync_round errstring0 agent_rejects_first SNMP_MSG_GET 1 second_pass))
       = Some {0, 1}"
proof -
  let ?resp = "(rs_pdu second_pass)\<lparr>command := SNMP_MSG_RESPONSE,
                 errstat := SNMP_ERR_NOSUCHNAME, errindex := 1\<rparr>"
  have a: "r_response (agent_rejects_first (length (sent second_pass)) (rs_pdu second_pass))
             = Some ?resp"
    by (simp add: agent_rejects_first_def)
  have b: "r_status (agent_rejects_first (length (sent second_pass)) (rs_pdu second_pass))
             = STAT_SUCCESS"
    by (simp add: agent_rejects_first_def)
  have c: "c_int (errstat ?resp) = SNMP_ERR_NOSUCHNAME"
    by (simp add: c_int_def SNMP_ERR_NOSUCHNAME_def)
  have d: "(1 :: int) \<noteq> 0" by simp
  have e: "last_errindex second_pass \<noteq> 0"
    by (simp add: second_pass_def)
  from nosuch_round_mask [where tr = agent_rejects_first and s = second_pass
      and resp = ?resp and rn = 1 and es = errstring0 and cmd = SNMP_MSG_GET,
      OF a b c d e]
  have "invalid_oids (snd (sync_round errstring0 agent_rejects_first SNMP_MSG_GET 1 second_pass))
          = Some {0, 1}"
    by (simp add: second_pass_def bitarray_set_bit_def ulong_def insert_commute)
  with a b c d e show ?thesis by simp
qed

text \<open>
  Claim C4 as stated fails in two ways.  With one entry and an agent that rejects it, the
  call returns success, but the response it hands back still holds the rejected entry.
  With an agent whose responses hold more entries than the request, three requests have
  gone out for a batch of one entry and the loop has not returned.
\<close>

theorem elision_keeps_last_response:
  "map_option status (fst (send_sync_pdu 1 errstring0 errstring0 (Some agent_rejects_first)
                             batch1 1 (Some {}) [])) = Some STAT_SUCCESS
   \<and> map_option (map_option variables \<circ> response)
        (fst (send_sync_pdu 1 errstring0 errstring0 (Some agent_rejects_first)
                batch1 1 (Some {}) [])) = Some (Some [null_var [1,3,6,1,2,1,1,9,0]])
   \<and> fst (send_sync_pdu 3 errstring0 errstring0 (Some agent_pads) batch1 1 (Some {}) [])
       = None
   \<and> length (sent (snd (send_sync_pdu 3 errstring0 errstring0 (Some agent_pads)
                           batch1 1 (Some {}) []))) = 3
   \<and> length (variables batch1) = 1"
  by code_simp

text \<open>
  Claim C4, amended.  Let the agent never answer with more entries than the request
  holds.  Then for a request of \<open>N\<close> entries the call returns as soon as it may make
  \<open>N\<close> passes (one, if \<open>N\<close> is 0), having sent at most that many requests.  And a pass
  in which retry is enabled, the response reports no-such-name and \<open>snmp_fix_pdu\<close>
  leaves nothing to resubmit ends the call with \<open>STAT_SUCCESS\<close> and no exception, the
  response handed back being that last response with its entries.
\<close>

theorem elision_retry_bounded:
  assumes "\<forall>k q resp. r_response (tr k q) = Some resp \<longrightarrow>
             length (variables resp) \<le> length (variables q)"
    and "max 1 (length (variables p)) \<le> fuel"
  shows "(\<exists>r s'. send_sync_pdu fuel es aes (Some tr) p rn ba [] = (Some r, s')
            \<and> length (sent s') \<le> max 1 (length (variables p)))
       \<and> (\<forall>(s :: retry_state) resp n.
            r_response (tr (length (sent s)) (rs_pdu s)) = Some resp
            \<and> r_status (tr (length (sent s)) (rs_pdu s)) = STAT_SUCCESS
            \<and> c_int (errstat resp) = SNMP_ERR_NOSUCHNAME \<and> rn \<noteq> 0
            \<and> snmp_fix_pdu resp (command p) = None
            \<longrightarrow> fst (send_sync_loop (Suc n) es tr (command p) rn s)
                 = Some \<lparr>status = STAT_SUCCESS, response = Some resp, err_str = [],
                         err_num = 0, err_ind = 0, raised = None\<rparr>)"
proof
  let ?s0 = "\<lparr>rs_pdu = p, retry_num = 0, last_errindex = 0, invalid_oids = ba,
              sent = []\<rparr>"
  from assms(2) have "max 1 (length (variables (rs_pdu ?s0))) \<le> fuel" by simp
  from send_sync_loop_terminates [of tr ?s0 fuel es "command p" rn, OF _ this] assms(1)
  show "\<exists>r s'. send_sync_pdu fuel es aes (Some tr) p rn ba [] = (Some r, s')
            \<and> length (sent s') \<le> max 1 (length (variables p))"
    by (simp add: send_sync_pdu_def)
next
  show "\<forall>(s :: retry_state) resp n.
            r_response (tr (length (sent s)) (rs_pdu s)) = Some resp
            \<and> r_status (tr (length (sent s)) (rs_pdu s)) = STAT_SUCCESS
            \<and> c_int (errstat resp) = SNMP_ERR_NOSUCHNAME \<and> rn \<noteq> 0
            \<and> snmp_fix_pdu resp (command p) = None
            \<longrightarrow> fst (send_sync_loop (Suc n) es tr (command p) rn s)
                 = Some \<lparr>status = STAT_SUCCESS, response = Some resp, err_str = [],
                         err_num = 0, err_ind = 0, raised = None\<rparr>"
  proof (intro allI impI)
    fix s :: retry_state and resp n
    assume h: "r_response (tr (length (sent s)) (rs_pdu s)) = Some resp
            \<and> r_status (tr (length (sent s)) (rs_pdu s)) = STAT_SUCCESS
            \<and> c_int (errstat resp) = SNMP_ERR_NOSUCHNAME \<and> rn \<noteq> 0
            \<and> snmp_fix_pdu resp (command p) = None"
    then have "fst (sync_round es tr (command p) rn s) =
           Some \<lparr>status = STAT_SUCCESS, response = Some resp, err_str = [],
                 err_num = 0, err_ind = 0, raised = None\<rparr>"
      using sync_round_no_entries_left by blast
    then show "fst (send_sync_loop (Suc n) es tr (command p) rn s)
                 = Some \<lparr>status = STAT_SUCCESS, response = Some resp, err_str = [],
                         err_num = 0, err_ind = 0, raised = None\<rparr>"
      by (cases "sync_round es tr (command p) rn s") auto
  qed
qed

theorem elision_retry_bounded_witness:
  "(\<forall>k q. r_response (agent_rejects_first k q)
            = Some (q\<lparr>command := SNMP_MSG_RESPONSE, errstat := SNMP_ERR_NOSUCHNAME,
                       errindex := 1\<rparr>))
   \<and> max 1 (length (variables batch5)) \<le> 5
   \<and> (\<exists>r s'. send_sync_pdu 5 errstring0 errstring0 (Some agent_rejects_first) batch5 1
                 (Some {}) [] = (Some r, s')
              \<and> length (sent s') \<le> max 1 (length (variables batch5)))
   \<and> fst (send_sync_loop (Suc 0) errstring0 agent_rejects_first (command batch5) 1 only_pass)
       = Some \<lparr>status = STAT_SUCCESS,
               response = Some (batch1\<lparr>command := SNMP_MSG_RESPONSE,
                                 errstat := SNMP_ERR_NOSUCHNAME, errindex := 1\<rparr>),
               err_str = [], err_num = 0, err_ind = 0, raised = None\<rparr>"
proof -
  let ?resp = "batch1\<lparr>command := SNMP_MSG_RESPONSE, errstat := SNMP_ERR_NOSUCHNAME,
                 errindex := 1\<rparr>"
  have a: "\<forall>k q resp. r_response (agent_rejects_first k q) = Some resp \<longrightarrow>
             length (variables resp) \<le> length (variables q)"
    by (auto simp add: agent_rejects_first_def)
  have b: "max 1 (length (variables batch5)) \<le> 5"
    by code_simp
  have c: "\<forall>k q. r_response (agent_rejects_first k q)
            = Some (q\<lparr>command := SNMP_MSG_RESPONSE, errstat := SNMP_ERR_NOSUCHNAME,
                       errindex := 1\<rparr>)"
    by (simp add: agent_rejects_first_def)
  have d: "r_response (agent_rejects_first (length (sent only_pass)) (rs_pdu only_pass))
             = Some ?resp
           \<and> r_status (agent_rejects_first (length (sent only_pass)) (rs_pdu only_pass))
             = STAT_SUCCESS
           \<and> c_int (errstat ?resp) = SNMP_ERR_NOSUCHNAME \<and> (1 :: int) \<noteq> 0
           \<and> snmp_fix_pdu ?resp (command batch5) = None"
    by code_simp
  note inst = elision_retry_bounded [where tr = agent_rejects_first and p = batch5
      and fuel = 5 and es = errstring0 and aes = errstring0 and rn = 1 and ba = "Some {}",
      OF a b]
  from inst have e: "\<exists>r s'. send_sync_pdu 5 errstring0 errstring0 (Some agent_rejects_first)
      batch5 1 (Some {}) [] = (Some r, s')
      \<and> length (sent s') \<le> max 1 (length (variables batch5))"
    by (rule conjunct1)
  from inst d have f: "fst (send_sync_loop (Suc 0) errstring0 agent_rejects_first
      (command batch5) 1 only_pass)
       = Some \<lparr>status = STAT_SUCCESS, response = Some ?resp,
               err_str = [], err_num = 0, err_ind = 0, raised = None\<rparr>"
    by blast
  from b c e f show ?thesis by blast
qed

section \<open>Properties of the OID resolver and of batch loading\<close>

lemma concat_tokens_len: "snd (concat_tokens ts a l) = l + length ts"
  by (induction ts arbitrary: a l) simp_all

lemma store_other: "i \<noteq> j \<Longrightarrow> store a j r i = a i"
  by (simp add: store_def split: option.splits)

lemma concat_tokens_below: "i < l \<Longrightarrow> fst (concat_tokens ts a l) i = a i"
  by (induction ts arbitrary: a l) (simp_all add: store_other)

lemma concat_oid_str_eq:
  "concat_oid_str a l (Some s) =
     (SUCCESS, fst (concat_tokens (strtok_dots [] s) a l), l + length (strtok_dots [] s))"
proof (cases s)
  case Nil
  then show ?thesis by (simp add: concat_oid_str_def)
next
  case (Cons c r)
  obtain a' l' where ct: "concat_tokens (strtok_dots [] s) a l = (a', l')"
    by (cases "concat_tokens (strtok_dots [] s) a l")
  with concat_tokens_len [of "strtok_dots [] s" a l] have "l' = l + length (strtok_dots [] s)"
    by simp
  with ct Cons show ?thesis
    by (auto simp add: concat_oid_str_def Let_def)
qed

lemma tag2oid_done_eq:
  "tag2oid_done tp a l ty (Some s) =
     (tp, fst (concat_tokens (strtok_dots [] s) a l), l + length (strtok_dots [] s), ty)"
  by (simp add: tag2oid_done_def concat_oid_str_eq)

lemma tag2oid_done_None: "tag2oid_done tp a l ty None = (tp, a, l, ty)"
  by (simp add: tag2oid_done_def concat_oid_str_def)

lemma tag2oid_instance:
  assumes "bg = 1 \<or> bg = 2 \<or> CHR ''.'' \<in> set t \<or> CHR '':'' \<in> set t \<or> find_node lib t \<noteq> None"
  shows "tag2oid lib nn (Some t) (Some s) arr bg =
           (case tag2oid lib nn (Some t) None arr bg of
              (tp, a, l, ty) \<Rightarrow> tag2oid_done tp a l ty (Some s))"
  using assms
  by (auto simp add: tag2oid_def tag2oid_done_None Let_def split: prod.splits option.splits)

lemma length_buf_take: "length (buf_take a n) = n"
  by (simp add: buf_take_def)

lemma take_buf_take: "take l (buf_take a (l + k)) = buf_take a l"
  by (simp add: buf_take_def take_map)

lemma buf_take_cong: "(\<And>i. i < n \<Longrightarrow> a i = b i) \<Longrightarrow> buf_take a n = buf_take b n"
  by (simp add: buf_take_def)

lemma strtok_dots_nonempty:
  "tok \<noteq> [] \<or> (\<exists>c \<in> set s. c \<noteq> CHR ''.'') \<Longrightarrow> strtok_dots tok s \<noteq> []"
  by (induction s arbitrary: tok) auto

lemma isalpha_c_not_dot: "isalpha_c c \<Longrightarrow> c \<noteq> CHR ''.''"
  by (auto simp add: isalpha_c_def isupper_c_def islower_c_def)

lemma load_entry_instance:
  assumes "vb_oid vb = Some t" and "vb_oid_index vb = Some iid"
    and "bg = 1 \<or> bg = 2 \<or> CHR ''.'' \<in> set t \<or> CHR '':'' \<in> set t \<or> find_node lib t \<noteq> None"
  shows "length (load_entry lib mem bg vb) =
           length (load_entry lib mem bg (vb\<lparr>vb_oid_index := Some []\<rparr>))
             + length (strtok_dots [] iid)"
    and "take (length (load_entry lib mem bg (vb\<lparr>vb_oid_index := Some []\<rparr>)))
           (load_entry lib mem bg vb) = load_entry lib mem bg (vb\<lparr>vb_oid_index := Some []\<rparr>)"
proof -
  obtain tp a l ty where base: "tag2oid lib mem (Some t) None mem bg = (tp, a, l, ty)"
    by (cases "tag2oid lib mem (Some t) None mem bg")
  have with_iid: "\<And>s. tag2oid lib mem (Some t) (Some s) mem bg =
      (tp, fst (concat_tokens (strtok_dots [] s) a l), l + length (strtok_dots [] s), ty)"
    by (simp add: tag2oid_instance [OF assms(3)] base tag2oid_done_eq)
  have e0: "load_entry lib mem bg (vb\<lparr>vb_oid_index := Some []\<rparr>) = buf_take a l"
    using assms(1) by (simp add: load_entry_def with_iid)
  have e1: "load_entry lib mem bg vb =
              buf_take (fst (concat_tokens (strtok_dots [] iid) a l))
                (l + length (strtok_dots [] iid))"
    using assms(1,2) by (simp add: load_entry_def with_iid)
  show "length (load_entry lib mem bg vb) =
           length (load_entry lib mem bg (vb\<lparr>vb_oid_index := Some []\<rparr>))
             + length (strtok_dots [] iid)"
    by (simp add: e0 e1 length_buf_take)
  have "buf_take (fst (concat_tokens (strtok_dots [] iid) a l)) l = buf_take a l"
    by (rule buf_take_cong) (simp add: concat_tokens_below)
  then show "take (length (load_entry lib mem bg (vb\<lparr>vb_oid_index := Some []\<rparr>)))
           (load_entry lib mem bg vb) = load_entry lib mem bg (vb\<lparr>vb_oid_index := Some []\<rparr>)"
    by (simp add: e0 e1 length_buf_take take_buf_take)
qed

text \<open>
  Claim C5 as stated fails.  The tag \<open>.1.3.6.1\<close> with the instance \<open>1a\<close>, which
  holds a letter, resolves in each of the three modes to the path \<open>1.3.6.1.1\<close>:
  \<open>__concat_oid_str\<close> reports success, one component has been appended, and
  \<open>netsnmp_get\<close> does not raise the unknown-object-id exception.
\<close>

theorem alphabetic_instance_resolves:
  "load_entry lib0 mem0 0 (entry ''.1.3.6.1'' ''1a'') = [1,3,6,1,1]
   \<and> load_entry lib0 mem0 1 (entry ''.1.3.6.1'' ''1a'') = [1,3,6,1,1]
   \<and> load_entry lib0 mem0 2 (entry ''.1.3.6.1'' ''1a'') = [1,3,6,1,1]
   \<and> load_entry lib0 mem0 0 (entry ''.1.3.6.1'' []) = [1,3,6,1]
   \<and> isalpha_c CHR ''a''
   \<and> fst (concat_oid_str mem0 4 (Some ''1a'')) = SUCCESS
   \<and> fst (netsnmp_get 1 lib0 mem0 (session_of agent_three_then_end 0)
             [entry ''.1.3.6.1'' ''1a'']) \<noteq>
        Some (Exception (EasySNMPUnknownObjectIDError ''unknown object id (.1.3.6.1)''))"
  by code_simp

text \<open>
  Claim C5, amended.  Take an entry with tag \<open>t\<close> and instance \<open>iid\<close>, in a mode and
  for a tag with which \<open>__tag2oid\<close> reaches its last step (every case but the failed
  look-up of a single name with \<open>best_guess\<close> 0, which returns at once).  Then
  \<open>__concat_oid_str\<close> reports success whatever the characters of the instance; the
  path of the entry is the path the tag resolves to, followed by one component for each
  non-empty token between the dots of the instance; and an instance that holds a letter
  gives a path that is not empty, so the resolution does not fail.
\<close>

theorem instance_appended_unchecked:
  assumes "vb_oid vb = Some t" and "vb_oid_index vb = Some iid"
    and "bg = 1 \<or> bg = 2 \<or> CHR ''.'' \<in> set t \<or> CHR '':'' \<in> set t \<or> find_node lib t \<noteq> None"
  shows "fst (concat_oid_str a l (Some iid)) = SUCCESS
       \<and> length (load_entry lib mem bg vb) =
           length (load_entry lib mem bg (vb\<lparr>vb_oid_index := Some []\<rparr>))
             + length (strtok_dots [] iid)
       \<and> take (length (load_entry lib mem bg (vb\<lparr>vb_oid_index := Some []\<rparr>)))
           (load_entry lib mem bg vb) = load_entry lib mem bg (vb\<lparr>vb_oid_index := Some []\<rparr>)
       \<and> ((\<exists>c \<in> set iid. isalpha_c c) \<longrightarrow> load_entry lib mem bg vb \<noteq> [])"
proof (intro conjI impI)
  show "fst (concat_oid_str a l (Some iid)) = SUCCESS"
    by (simp add: concat_oid_str_eq)
  show len: "length (load_entry lib mem bg vb) =
           length (load_entry lib mem bg (vb\<lparr>vb_oid_index := Some []\<rparr>))
             + length (strtok_dots [] iid)"
    by (rule load_entry_instance(1) [OF assms])
  show "take (length (load_entry lib mem bg (vb\<lparr>vb_oid_index := Some []\<rparr>)))
           (load_entry lib mem bg vb) = load_entry lib mem bg (vb\<lparr>vb_oid_index := Some []\<rparr>)"
    by (rule load_entry_instance(2) [OF assms])
  assume "\<exists>c \<in> set iid. isalpha_c c"
  then have "strtok_dots [] iid \<noteq> []"
    by (intro strtok_dots_nonempty) (auto dest: isalpha_c_not_dot)
  with len show "load_entry lib mem bg vb \<noteq> []"
    by (cases "load_entry lib mem bg vb") auto
qed

theorem instance_appended_unchecked_witness:
  "vb_oid (entry ''.1.3.6.1'' ''1a'') = Some ''.1.3.6.1''
   \<and> vb_oid_index (entry ''.1.3.6.1'' ''1a'') = Some ''1a''
   \<and> CHR ''.'' \<in> set ''.1.3.6.1''
   \<and> isalpha_c CHR ''a'' \<and> CHR ''a'' \<in> set ''1a''
   \<and> strtok_dots [] ''1a'' = [''1a'']
   \<and> fst (concat_oid_str mem0 4 (Some ''1a'')) = SUCCESS
   \<and> length (load_entry lib0 mem0 0 (entry ''.1.3.6.1'' ''1a'')) =
       length (load_entry lib0 mem0 0 ((entry ''.1.3.6.1'' ''1a'')\<lparr>vb_oid_index := Some []\<rparr>))
         + 1
   \<and> load_entry lib0 mem0 0 (entry ''.1.3.6.1'' ''1a'') \<noteq> []"
proof -
  let ?vb = "entry ''.1.3.6.1'' ''1a''"
  have a: "vb_oid ?vb = Some ''.1.3.6.1''" by (simp add: entry_def)
  have b: "vb_oid_index ?vb = Some ''1a''" by (simp add: entry_def)
  have c: "CHR ''.'' \<in> set ''.1.3.6.1''" by simp
  then have c': "(0 :: int) = 1 \<or> (0 :: int) = 2 \<or> CHR ''.'' \<in> set ''.1.3.6.1''
      \<or> CHR '':'' \<in> set ''.1.3.6.1'' \<or> find_node lib0 ''.1.3.6.1'' \<noteq> None"
    by blast
  have d: "isalpha_c CHR ''a''" by code_simp
  have e: "CHR ''a'' \<in> set ''1a''" by simp
  have f: "strtok_dots [] ''1a'' = [''1a'']" by simp
  from d e have g: "\<exists>c \<in> set ''1a''. isalpha_c c" by blast
  note inst = instance_appended_unchecked [where a = mem0 and l = 4 and lib = lib0
      and mem = mem0, OF a b c']
  from inst f g a b c d e show ?thesis by simp
qed

lemma snmp_op_data_load_fails:
  "vb \<in> set varlist \<Longrightarrow> load_entry lib mem bg vb = [] \<Longrightarrow>
     \<exists>vb'. vb' \<in> set varlist \<and> load_entry lib mem bg vb' = []
          \<and> snmp_op_data_load lib mem bg varlist =
              Inl (case vb_oid vb' of
                     None \<Rightarrow> NullPointerRead
                   | Some t \<Rightarrow> Exception (unknown_object_id vb'))"
proof (induction varlist)
  case Nil
  then show ?case by simp
next
  case (Cons a varlist)
  show ?case
  proof (cases "load_entry lib mem bg a = []")
    case True
    then show ?thesis by (auto split: option.splits)
  next
    case False
    with Cons.prems have "vb \<in> set varlist" by auto
    from Cons.IH [OF this Cons.prems(2)] False show ?thesis by auto
  qed
qed

text \<open>
  What \<open>netsnmp_get\<close> does with a batch one of whose entries resolves to a path of
  length 0: no request is sent, and the call ends at the first such entry, with the
  unknown-object-id exception when the tag of that entry was read and with the read
  through \<open>NULL\<close> when it was not.
\<close>

lemma unresolved_entry_sends_nothing:
  assumes "vb \<in> set varlist" and "load_entry lib mem (best_guess ctx) vb = []"
  shows "\<exists>vb'. vb' \<in> set varlist \<and> load_entry lib mem (best_guess ctx) vb' = []
          \<and> netsnmp_get fuel lib mem ctx varlist =
              (Some (case vb_oid vb' of
                       None \<Rightarrow> NullPointerRead
                     | Some t \<Rightarrow>
                         Exception (EasySNMPUnknownObjectIDError
                           (''unknown object id ('' @ t @ '')''))), [])"
proof -
  from snmp_op_data_load_fails [OF assms] obtain vb' where
    m: "vb' \<in> set varlist" and f: "load_entry lib mem (best_guess ctx) vb' = []" and
    l: "snmp_op_data_load lib mem (best_guess ctx) varlist =
          Inl (case vb_oid vb' of
                 None \<Rightarrow> NullPointerRead
               | Some t \<Rightarrow> Exception (unknown_object_id vb'))"
    by blast
  from l have "netsnmp_get fuel lib mem ctx varlist =
      (Some (case vb_oid vb' of
               None \<Rightarrow> NullPointerRead
             | Some t \<Rightarrow>
                 Exception (EasySNMPUnknownObjectIDError
                   (''unknown object id ('' @ t @ '')''))), [])"
    by (simp add: netsnmp_get_def unknown_object_id_def split: option.splits)
  with m f show ?thesis by blast
qed

text \<open>
  Claim C9, evaluated on the code at an entry whose attribute \<open>oid\<close> cannot be read.
  \<open>snmp_op_data_load\<close> gives such an entry the length 0 and means to raise the
  unknown-object-id exception for it, with \<open><null>\<close> in the place of the tag, as
  \<open>netsnmp_set\<close> does; but the log message before the exception reads through the
  \<open>NULL\<close> tag, so the call ends there and raises nothing.  No request has been sent.
  An entry whose tag was read and is unknown raises the exception, as the claim says.
\<close>

theorem unreadable_tag_is_read_through:
  "vb_oid entry_without_oid = None
   \<and> load_entry lib0 mem0 0 entry_without_oid = []
   \<and> snmp_op_data_load lib0 mem0 0 [entry_without_oid] = Inl NullPointerRead
   \<and> netsnmp_get 3 lib0 mem0 (session_of agent_three_then_end 0) [entry_without_oid]
       = (Some NullPointerRead, [])
   \<and> netsnmp_get 3 lib0 mem0 (session_of agent_three_then_end 0)
        [entry ''.1.3.6.1.2.1.1'' ''0'', entry_without_oid]
       = (Some NullPointerRead, [])
   \<and> netsnmp_set 3 lib0 mem0 0 (session_of agent_three_then_end 0) 0 [entry_without_oid]
       = (Some (Exception (EasySNMPUnknownObjectIDError ''unknown object id (<null>)'')), [])
   \<and> netsnmp_get 3 lib0 mem0 (session_of agent_three_then_end 0)
        [entry ''.1.3.6.1.2.1.1'' ''0'', entry ''sysDescr'' ''0'']
       = (Some (Exception (EasySNMPUnknownObjectIDError ''unknown object id (sysDescr)'')), [])"
  by code_simp

section \<open>Properties of the walk iterator\<close>










lemma send_pdu_request_accepted:
  assumes "handle ctx = Some tr"
    and "r_status (tr (length log) p) = STAT_SUCCESS"
    and "r_response (tr (length log) p) = Some resp"
    and "c_int (errstat resp) = SNMP_ERR_NOERROR"
  shows "\<exists>s. send_pdu_request (Suc fuel) lib ctx p log =
           (Some \<lparr>status = SNMP_ERR_NOERROR, response = Some resp, err_str = [],
                  err_num = 0, err_ind = 0, raised = None\<rparr>, s)
         \<and> sent s = log @ [p]"
  using assms
  by (simp add: send_pdu_request_def send_sync_pdu_def sync_round_def Let_def
      adjust_status_def stat_consts)


lemma walk_rounds_done:
  assumes "w_pdu w = Some p"
    and "send_pdu_request fuel lib ctx p log = (Some r, s)"
    and "check_send r = None"
    and "response r = Some resp"
    and "walk_vars lib ctx nr io oa (variables resp) (w\<lparr>w_pdu := None\<rparr>) = Inr w'"
    and "\<not> w_notdone w'"
  shows "walk_rounds (Suc k) fuel lib ctx nr io oa w log = (Some (Inr (w_results w')), sent s)"
  using assms by simp

text \<open>
  Claim C6 as stated fails for a variable that is a no-such-instance marker: the loop
  tests the type of a variable before its name.  The agent answers the first request of
  a walk of \<open>.1.3.6.1.2.1.1\<close> with such a marker named \<open>.1.3.6.1.2.1.2.1.0\<close>, outside
  the subtree, and the walk ends with one result record.
\<close>

theorem walk_marker_outside_subtree_is_reported:
  "netsnmp_walk (Suc 0) lib0 mem0 (session_of agent_no_instance 0) [entry ''.1.3.6.1.2.1.1'' []]
     = (Some (Results [placeholder ''.1.3.6.1.2.1.1'' SNMP_NOSUCHINSTANCE]),
        [getnext_req [1,3,6,1,2,1,1]])
   \<and> agent_no_instance 0 (getnext_req [1,3,6,1,2,1,1])
       = reply_with [\<lparr>name = [1,3,6,1,2,1,2,1,0], vtype = SNMP_NOSUCHINSTANCE, val = NoVal\<rparr>]
   \<and> take (length [1,3,6,1,2,1,1 :: nat]) [1,3,6,1,2,1,2,1,0] \<noteq> [1,3,6,1,2,1,1 :: nat]
   \<and> length [placeholder ''.1.3.6.1.2.1.1'' SNMP_NOSUCHINSTANCE] = 1"
  by code_simp

text \<open>
  Claim C6, amended.  A walk of one starting path whose first response is accepted and
  begins with a variable that is neither a no-such-object nor a no-such-instance marker,
  and whose name is shorter than the starting path or differs from it within its
  length, ends after that one request with no result record.
\<close>

theorem walk_stops_outside_subtree:
  assumes load: "snmp_op_data_load lib mem (best_guess ctx) [vb] = Inr [(oa, io)]"
    and h: "handle ctx = Some tr"
    and st: "r_status (tr 0 (getnext_req oa)) = STAT_SUCCESS"
    and rs: "r_response (tr 0 (getnext_req oa)) = Some resp"
    and ok: "c_int (errstat resp) = SNMP_ERR_NOERROR"
    and vs: "variables resp = v # vs"
    and out: "length (name v) < length oa \<or> take (length oa) (name v) \<noteq> oa"
    and ty: "vtype v \<noteq> SNMP_NOSUCHOBJECT" "vtype v \<noteq> SNMP_NOSUCHINSTANCE"
  shows "netsnmp_walk (Suc n) lib mem ctx [vb] = (Some (Results []), [getnext_req oa])"
proof -
  let ?w0 = "\<lparr>w_results = [], w_pdu = Some (getnext_req oa), w_notdone = True\<rparr>"
  from send_pdu_request_accepted [where log = "[]" and fuel = n and lib = lib, OF h _ _ ok]
    st rs
  obtain s where
    snd: "send_pdu_request (Suc n) lib ctx (getnext_req oa) [] =
            (Some \<lparr>status = SNMP_ERR_NOERROR, response = Some resp, err_str = [],
                   err_num = 0, err_ind = 0, raised = None\<rparr>, s)"
    and log: "sent s = [getnext_req oa]"
    by auto
  from vs out ty
  have vars: "walk_vars lib ctx getnext_req io oa (variables resp) (?w0\<lparr>w_pdu := None\<rparr>)
                = Inr \<lparr>w_results = [], w_pdu = None, w_notdone = False\<rparr>"
    by (simp add: out_of_scope_def)
  have "walk_rounds (Suc n) (Suc n) lib ctx getnext_req io oa ?w0 [] =
          (Some (Inr (w_results \<lparr>w_results = [], w_pdu = None, w_notdone = False\<rparr>)), sent s)"
    by (rule walk_rounds_done [OF _ snd _ _ vars]) (simp_all add: check_send_def stat_consts)
  with log load show ?thesis
    by (simp add: netsnmp_walk_def del: walk_rounds.simps)
qed

theorem walk_stops_outside_subtree_witness:
  "snmp_op_data_load lib0 mem0 (best_guess (session_of agent_next_subtree 0))
       [entry ''.1.3.6.1.2.1.1'' []] = Inr [([1,3,6,1,2,1,1], ''.1.3.6.1.2.1.1'')]
   \<and> handle (session_of agent_next_subtree 0) = Some agent_next_subtree
   \<and> agent_next_subtree 0 (getnext_req [1,3,6,1,2,1,1])
       = reply_with [\<lparr>name = [1,3,6,1,2,1,2,1,0], vtype = ASN_INTEGER, val = IntVal 3\<rparr>]
   \<and> take (length [1,3,6,1,2,1,1 :: nat]) [1,3,6,1,2,1,2,1,0] \<noteq> [1,3,6,1,2,1,1 :: nat]
   \<and> ASN_INTEGER \<noteq> SNMP_NOSUCHOBJECT \<and> ASN_INTEGER \<noteq> SNMP_NOSUCHINSTANCE
   \<and> netsnmp_walk (Suc 0) lib0 mem0 (session_of agent_next_subtree 0)
        [entry ''.1.3.6.1.2.1.1'' []] = (Some (Results []), [getnext_req [1,3,6,1,2,1,1]])"
proof -
  let ?v = "\<lparr>name = [1,3,6,1,2,1,2,1,0], vtype = ASN_INTEGER, val = IntVal 3\<rparr>"
  let ?resp = "\<lparr>command = SNMP_MSG_RESPONSE, errstat = 0, errindex = 0, variables = [?v]\<rparr>"
  have load: "snmp_op_data_load lib0 mem0 (best_guess (session_of agent_next_subtree 0))
       [entry ''.1.3.6.1.2.1.1'' []] = Inr [([1,3,6,1,2,1,1], ''.1.3.6.1.2.1.1'')]"
    by code_simp
  have h: "handle (session_of agent_next_subtree 0) = Some agent_next_subtree"
    by (simp add: session_of_def)
  have rep: "agent_next_subtree 0 (getnext_req [1,3,6,1,2,1,1]) = reply_with [?v]"
    by (simp add: agent_next_subtree_def)
  have st: "r_status (agent_next_subtree 0 (getnext_req [1,3,6,1,2,1,1])) = STAT_SUCCESS"
    by (simp add: agent_next_subtree_def reply_with_def)
  have rs: "r_response (agent_next_subtree 0 (getnext_req [1,3,6,1,2,1,1])) = Some ?resp"
    by (simp add: agent_next_subtree_def reply_with_def)
  have ok: "c_int (errstat ?resp) = SNMP_ERR_NOERROR"
    by (simp add: c_int_def SNMP_ERR_NOERROR_def)
  have vs: "variables ?resp = ?v # []" by simp
  have out': "take (length [1,3,6,1,2,1,1 :: nat]) [1,3,6,1,2,1,2,1,0] \<noteq> [1,3,6,1,2,1,1 :: nat]"
    by simp
  then have out: "length (name ?v) < length [1,3,6,1,2,1,1 :: nat]
      \<or> take (length [1,3,6,1,2,1,1 :: nat]) (name ?v) \<noteq> [1,3,6,1,2,1,1]"
    by simp
  have ty': "ASN_INTEGER \<noteq> SNMP_NOSUCHOBJECT" "ASN_INTEGER \<noteq> SNMP_NOSUCHINSTANCE"
    by (simp_all add: asn_consts type_consts)
  then have ty: "vtype ?v \<noteq> SNMP_NOSUCHOBJECT" "vtype ?v \<noteq> SNMP_NOSUCHINSTANCE"
    by simp_all
  from walk_stops_outside_subtree [where n = 0, OF load h st rs ok vs out ty]
  have "netsnmp_walk (Suc 0) lib0 mem0 (session_of agent_next_subtree 0)
        [entry ''.1.3.6.1.2.1.1'' []] = (Some (Results []), [getnext_req [1,3,6,1,2,1,1]])" .
  with load h rep out' ty' show ?thesis by blast
qed



section \<open>Properties of the write entry point\<close>

text \<open>
  Claim C10.  Once \<open>netsnmp_set\<close> has built its request, a response with the
  no-such-name status ends the call with \<open>EasySNMPNoSuchNameError\<close> after that single
  request; and the session's \<open>retry_nosuch\<close> has no influence on the call.
\<close>

theorem set_never_elides:
  assumes built: "set_entries lib nn junk (best_guess ctx) ue varlist (\<lambda>i. 0)
                    (snmp_pdu_create SNMP_MSG_SET) = Inr p"
    and h: "handle ctx = Some tr"
    and st: "r_status (tr 0 p) = STAT_SUCCESS"
    and rs: "r_response (tr 0 p) = Some resp"
    and nosuch: "c_int (errstat resp) = SNMP_ERR_NOSUCHNAME"
  shows "netsnmp_set (Suc n) lib nn junk ctx ue varlist =
           (Some (Exception (EasySNMPNoSuchNameError ''no such name error encountered'')), [p])
       \<and> netsnmp_set fuel lib nn junk (ctx\<lparr>retry_nosuch := rn\<rparr>) ue varlist =
           netsnmp_set fuel lib nn junk ctx ue varlist"
proof
  from h st rs nosuch
  have "send_sync_pdu (Suc n) (snmp_errstring lib) (snmp_api_errstring lib) (handle ctx) p
          NO_RETRY_NOSUCH None [] =
        (Some \<lparr>status = SNMP_ERR_NOSUCHNAME, response = Some resp, err_str = [],
               err_num = 0, err_ind = 0,
               raised = Some (EasySNMPNoSuchNameError ''no such name error encountered'')\<rparr>,
         \<lparr>rs_pdu = p, retry_num = 0, last_errindex = 0, invalid_oids = None, sent = [p]\<rparr>)"
    by (simp add: send_sync_pdu_def sync_round_def Let_def adjust_status_def stat_consts
        NO_RETRY_NOSUCH_def)
  with built show "netsnmp_set (Suc n) lib nn junk ctx ue varlist =
           (Some (Exception (EasySNMPNoSuchNameError ''no such name error encountered'')), [p])"
    by (simp add: netsnmp_set_def stat_consts)
  show "netsnmp_set fuel lib nn junk (ctx\<lparr>retry_nosuch := rn\<rparr>) ue varlist =
           netsnmp_set fuel lib nn junk ctx ue varlist"
    by (simp add: netsnmp_set_def split: sum.splits)
qed

theorem set_never_elides_witness:
  "set_entries lib0 mem0 0 (best_guess (session_of agent_rejects_first 1)) 0 write_batch
       (\<lambda>i. 0) (snmp_pdu_create SNMP_MSG_SET) = Inr write_request
   \<and> handle (session_of agent_rejects_first 1) = Some agent_rejects_first
   \<and> retry_nosuch (session_of agent_rejects_first 1) = 1
   \<and> agent_rejects_first 0 write_request
       = \<lparr>r_status = STAT_SUCCESS,
          r_response = Some (write_request\<lparr>command := SNMP_MSG_RESPONSE,
                               errstat := SNMP_ERR_NOSUCHNAME, errindex := 1\<rparr>),
          r_errno = 0, r_snmp_errno = 0, r_detail = []\<rparr>
   \<and> netsnmp_set (Suc 0) lib0 mem0 0 (session_of agent_rejects_first 1) 0 write_batch
       = (Some (Exception (EasySNMPNoSuchNameError ''no such name error encountered'')),
          [write_request])"
proof -
  let ?ctx = "session_of agent_rejects_first 1"
  let ?resp = "write_request\<lparr>command := SNMP_MSG_RESPONSE,
                 errstat := SNMP_ERR_NOSUCHNAME, errindex := 1\<rparr>"
  have built: "set_entries lib0 mem0 0 (best_guess ?ctx) 0 write_batch
       (\<lambda>i. 0) (snmp_pdu_create SNMP_MSG_SET) = Inr write_request"
    by code_simp
  have h: "handle ?ctx = Some agent_rejects_first" by (simp add: session_of_def)
  have rn: "retry_nosuch ?ctx = 1" by (simp add: session_of_def)
  have rep: "agent_rejects_first 0 write_request
       = \<lparr>r_status = STAT_SUCCESS, r_response = Some ?resp,
          r_errno = 0, r_snmp_errno = 0, r_detail = []\<rparr>"
    by (simp add: agent_rejects_first_def)
  have st: "r_status (agent_rejects_first 0 write_request) = STAT_SUCCESS"
    by (simp add: agent_rejects_first_def)
  have rs: "r_response (agent_rejects_first 0 write_request) = Some ?resp"
    by (simp add: agent_rejects_first_def)
  have ns: "c_int (errstat ?resp) = SNMP_ERR_NOSUCHNAME"
    by (simp add: c_int_def SNMP_ERR_NOSUCHNAME_def)
  from set_never_elides [where n = 0, OF built h st rs ns]
  have "netsnmp_set (Suc 0) lib0 mem0 0 ?ctx 0 write_batch
       = (Some (Exception (EasySNMPNoSuchNameError ''no such name error encountered'')),
          [write_request])"
    by blast
  with built h rn rep show ?thesis by blast
qed

end
